theory Spec2Isabelle
  imports Complex_Main "HOL-Library.Monad_Syntax"
begin

section \<open>Satellite visibility passes: the two sweep programs\<close>

text \<open>
  The repository holds two variants of one program, \<^verbatim>\<open>calculate_and_save_data\<close>:
  variant 1 takes the two lines of an element set, variant 2 a catalogue number. Both
  sweep a time range at a fixed step, ask skyfield for the geometry of each instant,
  and segment the instants into passes. Each variant is embedded on its own, with the
  suffix 1 or 2.

  Conventions of the embedding:
  \<^item> a \<^verbatim>\<open>datetime\<close> is an \<^typ>\<open>int\<close>, the microseconds since some epoch (the
    resolution of Python's datetime); its range limit (year 9999) is left out. The
    strings made by \<^verbatim>\<open>isoformat()\<close> and read back by \<^verbatim>\<open>fromisoformat\<close>
    stand for the instant they denote;
  \<^item> a Python \<^verbatim>\<open>float\<close> is idealised as a \<^typ>\<open>real\<close>: no binary rounding, no
    infinities, no NaN;
  \<^item> skyfield, the network and the clock are parameters: a record of the library
    functions the programs call, where \<open>None\<close> stands for a raised exception;
  \<^item> the two JSON files are the pair of report values the function returns; a call that
    does not return normally (it raises, or loops forever) is \<open>None\<close>.
\<close>

subsection \<open>Python primitives\<close>

type_synonym datetime = int

definition timedelta :: "int \<Rightarrow> int" where
  \<comment> \<open>\<^verbatim>\<open>timedelta(seconds = n)\<close> for an integer n, in microseconds\<close>
  "timedelta seconds = seconds * 1000000"

definition total_seconds :: "int \<Rightarrow> real" where
  "total_seconds td = real_of_int td / 1000000"

definition round_half_even :: "real \<Rightarrow> int" where
  "round_half_even x =
     (let f = \<lfloor>x\<rfloor>; d = x - of_int f
      in if d < 1/2 then f else if 1/2 < d then f + 1
         else if even f then f else f + 1)"

definition timedelta_float :: "real \<Rightarrow> int" where
  \<comment> \<open>\<^verbatim>\<open>timedelta(seconds = x)\<close> for a float x: rounded to the nearest microsecond,
      ties to even\<close>
  "timedelta_float seconds = round_half_even (seconds * 1000000)"

definition py_round :: "real \<Rightarrow> nat \<Rightarrow> real" where
  \<comment> \<open>\<^verbatim>\<open>round(x, ndigits)\<close>: the nearest multiple of \<open>10 ^ - ndigits\<close>, ties to even\<close>
  "py_round x ndigits = of_int (round_half_even (x * 10 ^ ndigits)) / 10 ^ ndigits"

definition digit_char :: "nat \<Rightarrow> char" where
  "digit_char d = ''0123456789'' ! d"

fun str_nat :: "nat \<Rightarrow> string" where
  "str_nat n = (if n < 10 then [digit_char n] else str_nat (n div 10) @ [digit_char (n mod 10)])"

declare str_nat.simps [simp del]

definition str_int :: "int \<Rightarrow> string" where
  \<comment> \<open>\<^verbatim>\<open>f"{n}"\<close> for an int\<close>
  "str_int n = (if n < 0 then CHR ''-'' # str_nat (nat (- n)) else str_nat (nat n))"

fun contains :: "string \<Rightarrow> string \<Rightarrow> bool" where
  \<comment> \<open>\<^verbatim>\<open>sub in s\<close>\<close>
  "contains sub [] = (sub = [])"
| "contains sub (c # cs) = (take (length sub) (c # cs) = sub \<or> contains sub cs)"

definition isspace :: "char \<Rightarrow> bool" where
  \<comment> \<open>\<^verbatim>\<open>str.isspace\<close> on the code points below 256\<close>
  "isspace c = (of_char c \<in> {9, 10, 11, 12, 13, 28, 29, 30, 31, 32, 133, 160 :: nat})"

definition strip :: "string \<Rightarrow> string" where
  "strip s = rev (dropWhile isspace (rev (dropWhile isspace s)))"

definition split_first :: "char \<Rightarrow> string \<Rightarrow> string" where
  \<comment> \<open>\<^verbatim>\<open>s.split(sep)[0]\<close>: the part of s before the first sep\<close>
  "split_first sep s = takeWhile (\<lambda>c. c \<noteq> sep) s"

subsection \<open>The data the programs build\<close>

record geodesic =
  lat :: real
  lon :: real
  height_m :: real

record geodetic =
  latitude :: real
  longitude :: real
  altitude_km :: real

record relative =
  elevation :: real
  azimuth :: real
  distance_km :: real

text \<open>The \<^verbatim>\<open>"topocentric"\<close> dictionary of variant 2 has the keys of the
  \<^verbatim>\<open>'relative'\<close> one of variant 1.\<close>

type_synonym topocentric = relative

text \<open>An ephemeris entry: its \<^verbatim>\<open>pass_id\<close> (here \<open>eph_pass_id\<close>, as the pass has a
  key of the same name) and timestamp, then the nested dictionaries of each variant.\<close>

record ephemeris_key =
  eph_pass_id :: int
  timestamp :: datetime

record ephemeris_entry1 = ephemeris_key +
  geodesic :: geodesic
  relative :: relative

record ephemeris_entry2 = ephemeris_key +
  geodetic :: geodetic
  topocentric :: topocentric

text \<open>A pass. Variant 2 adds the \<^verbatim>\<open>"events"\<close> list; it creates the
  \<^verbatim>\<open>"duration_sec"\<close> key only when it closes the pass, and the model holds 0 there
  until then (no output shows an open pass).\<close>

record pass =
  pass_id :: int
  start :: datetime
  pass_end :: datetime
  max_elevation :: real
  duration_sec :: real

record pass_ev = pass +
  events :: "ephemeris_entry2 list"

text \<open>The variables of the loop (variant 2 calls them \<^verbatim>\<open>passes\<close>,
  \<^verbatim>\<open>ephemeris\<close>, \<^verbatim>\<open>pass_number\<close> and \<^verbatim>\<open>current_pass\<close>).\<close>

record ('p, 'e) sweep_state =
  passes_data :: "'p list"
  ephemeris_data :: "'e list"
  pass_counter :: int
  current_pass :: "'p option"

definition init_state :: "('p, 'e) sweep_state" where
  "init_state = \<lparr>passes_data = [], ephemeris_data = [], pass_counter = 0, current_pass = None\<rparr>"

subsection \<open>The external library\<close>

text \<open>What skyfield computes is outside the repository: \<open>'p\<close> is a geocentric position
  of the satellite, \<open>'o\<close> one of the observer. \<open>None\<close> is a raised exception.\<close>

record 'p satellite =
  satnum :: int  \<comment> \<open>\<^verbatim>\<open>satellite.model.satnum\<close>\<close>
  sat_name :: string  \<comment> \<open>\<^verbatim>\<open>satellite.name\<close>\<close>
  sat_at :: "datetime \<Rightarrow> 'p option"  \<comment> \<open>\<^verbatim>\<open>satellite.at(ts.from_datetime(t))\<close>\<close>

record ('p, 'o) skyfield =
  EarthSatellite :: "string \<Rightarrow> string \<Rightarrow> 'p satellite option"
  tle_file :: "string \<Rightarrow> 'p satellite list option"  \<comment> \<open>\<^verbatim>\<open>load.tle_file(url)\<close>\<close>
  latlon :: "real \<Rightarrow> real \<Rightarrow> real \<Rightarrow> datetime \<Rightarrow> 'o option"
      \<comment> \<open>\<^verbatim>\<open>wgs84.latlon(lat, lon, elev).at(ts.from_datetime(t))\<close>\<close>
  distance :: "'p \<Rightarrow> real option"  \<comment> \<open>\<^verbatim>\<open>pos.distance().km\<close>\<close>
  altaz :: "'p \<Rightarrow> 'o \<Rightarrow> (real \<times> real \<times> real) option"
      \<comment> \<open>\<^verbatim>\<open>(pos - observer_pos).altaz()\<close>: degrees, degrees, km\<close>
  subpoint :: "'p \<Rightarrow> (real \<times> real \<times> real) option"
      \<comment> \<open>\<^verbatim>\<open>pos.subpoint()\<close>: latitude and longitude in degrees, elevation in metres\<close>

text \<open>What one time step obtains inside its \<^verbatim>\<open>try\<close> block.\<close>

record sample =
  alt_degrees :: real
  az_degrees :: real
  dist_km :: real
  sub_lat :: real
  sub_lon :: real
  sub_elev_m :: real

subsection \<open>Variant 1\<close>

definition get_satellite_name :: "string option \<Rightarrow> int \<Rightarrow> string" where
  \<comment> \<open>\<open>response\<close> is the text the catalogue answers with; \<open>None\<close> when
      \<^verbatim>\<open>requests.get\<close> or \<^verbatim>\<open>raise_for_status\<close> raises\<close>
  "get_satellite_name response norad_id =
     (case response of
        None \<Rightarrow> ''SAT-'' @ str_int norad_id
      | Some raw_data \<Rightarrow>
          if contains ''404 Not Found'' raw_data then ''SAT-'' @ str_int norad_id
          else split_first CHR '' '' (strip (split_first CHR 0x0A raw_data)))"

definition geometry1 ::
  "('p, 'o) skyfield \<Rightarrow> 'p satellite \<Rightarrow> (datetime \<Rightarrow> 'o option) \<Rightarrow> datetime \<Rightarrow> sample option" where
  "geometry1 sky satellite observer current_time =
     do {
       sat_pos \<leftarrow> sat_at satellite current_time;
       distance_km \<leftarrow> distance sky sat_pos;
       let light_time_sec = distance_km / 299792.458;
       let t_obs = current_time - timedelta_float light_time_sec;
       observer_pos \<leftarrow> observer t_obs;
       (alt, az, dist) \<leftarrow> altaz sky sat_pos observer_pos;
       (la, lo, el) \<leftarrow> subpoint sky sat_pos;
       Some \<lparr>alt_degrees = alt, az_degrees = az, dist_km = dist,
             sub_lat = la, sub_lon = lo, sub_elev_m = el\<rparr>
     }"

definition close_pass1 :: "pass \<Rightarrow> pass" where
  "close_pass1 p = p\<lparr>duration_sec := total_seconds (pass_end p - start p)\<rparr>"

definition step1 ::
  "real \<Rightarrow> datetime \<Rightarrow> sample \<Rightarrow> (pass, ephemeris_entry1) sweep_state
     \<Rightarrow> (pass, ephemeris_entry1) sweep_state" where
  \<comment> \<open>the body of the loop after a \<^verbatim>\<open>try\<close> block that did not raise\<close>
  "step1 min_elevation current_time g st =
     (if min_elevation \<le> alt_degrees g then
        let st' =
          (case current_pass st of
             None \<Rightarrow>
               st\<lparr>pass_counter := pass_counter st + 1,
                  current_pass := Some \<lparr>pass_id = pass_counter st + 1, start = current_time,
                    pass_end = current_time, max_elevation = alt_degrees g,
                    duration_sec = 0\<rparr>\<rparr>
           | Some p \<Rightarrow>
               st\<lparr>current_pass := Some (p\<lparr>pass_end := current_time,
                    max_elevation := max (max_elevation p) (alt_degrees g)\<rparr>)\<rparr>);
          ephemeris_entry =
            \<lparr>eph_pass_id = pass_counter st', timestamp = current_time,
             geodesic = \<lparr>lat = py_round (sub_lat g) 6, lon = py_round (sub_lon g) 6,
                         height_m = py_round (sub_elev_m g) 2\<rparr>,
             relative = \<lparr>elevation = py_round (alt_degrees g) 3,
                         azimuth = py_round (az_degrees g) 3,
                         distance_km = py_round (dist_km g) 3\<rparr>\<rparr>
        in st'\<lparr>ephemeris_data := ephemeris_data st' @ [ephemeris_entry]\<rparr>
      else
        (case current_pass st of
           Some p \<Rightarrow> st\<lparr>passes_data := passes_data st @ [close_pass1 p], current_pass := None\<rparr>
         | None \<Rightarrow> st))"

definition iteration1 ::
  "('p, 'o) skyfield \<Rightarrow> 'p satellite \<Rightarrow> (datetime \<Rightarrow> 'o option) \<Rightarrow> real
     \<Rightarrow> (pass, ephemeris_entry1) sweep_state \<Rightarrow> datetime \<Rightarrow> (pass, ephemeris_entry1) sweep_state" where
  \<comment> \<open>one pass through the loop body, the advance of \<^verbatim>\<open>current_time\<close> apart:
      an exception in the \<^verbatim>\<open>try\<close> block leads to \<^verbatim>\<open>continue\<close>\<close>
  "iteration1 sky satellite observer min_elevation st current_time =
     (case geometry1 sky satellite observer current_time of
        None \<Rightarrow> st
      | Some g \<Rightarrow> step1 min_elevation current_time g st)"

partial_function (option) sweep1 ::
  "('p, 'o) skyfield \<Rightarrow> 'p satellite \<Rightarrow> (datetime \<Rightarrow> 'o option) \<Rightarrow> real \<Rightarrow> datetime \<Rightarrow> int
     \<Rightarrow> (pass, ephemeris_entry1) sweep_state \<Rightarrow> datetime
     \<Rightarrow> (pass, ephemeris_entry1) sweep_state option" where
  "sweep1 sky satellite observer min_elevation end_time_utc step_seconds st current_time =
     (if current_time \<le> end_time_utc then
        sweep1 sky satellite observer min_elevation end_time_utc step_seconds
          (iteration1 sky satellite observer min_elevation st current_time)
          (current_time + timedelta step_seconds)
      else Some st)"

declare sweep1.simps [code]

definition last_pass1 :: "(pass, 'e) sweep_state \<Rightarrow> (pass, 'e) sweep_state" where
  \<comment> \<open>after the loop: the pass still open is closed and appended\<close>
  "last_pass1 st =
     (case current_pass st of
        Some p \<Rightarrow> st\<lparr>passes_data := passes_data st @ [close_pass1 p]\<rparr>
      | None \<Rightarrow> st)"

record observer_md =
  md_latitude :: real
  md_longitude :: real
  md_elevation_m :: real

record calculation_md =
  md_start :: datetime
  md_end :: datetime
  md_step_seconds :: int
  md_min_elevation_deg :: real

record metadata1 =
  md_satellite_name :: string
  md_norad_id :: int
  md_observer :: observer_md
  md_calculation_parameters :: calculation_md

record passes_output1 =
  po_metadata :: metadata1
  po_total_passes :: int  \<comment> \<open>\<^verbatim>\<open>metadata.total_passes\<close>\<close>
  po_passes :: "pass list"

record ephemeris_output1 =
  eo_metadata :: metadata1
  eo_ephemeris :: "ephemeris_entry1 list"

definition calculate_and_save_data1 ::
  "('p, 'o) skyfield \<Rightarrow> string option \<Rightarrow> string \<Rightarrow> string \<Rightarrow> real \<Rightarrow> real \<Rightarrow> datetime \<Rightarrow> datetime
     \<Rightarrow> int \<Rightarrow> real \<Rightarrow> real \<Rightarrow> (passes_output1 \<times> ephemeris_output1) option" where
  \<comment> \<open>\<open>response\<close> is what the catalogue answers to the name lookup; the result is what
      is written to \<^verbatim>\<open>passes_file\<close> and \<^verbatim>\<open>ephemeris_file\<close>\<close>
  "calculate_and_save_data1 sky response tle_line1 tle_line2 observer_lat observer_lon
       start_time_utc end_time_utc step_seconds observer_elev min_elevation =
     do {
       satellite \<leftarrow> EarthSatellite sky tle_line1 tle_line2;
       let norad_id = satnum satellite;
       let satellite_name = get_satellite_name response norad_id;
       let observer = latlon sky observer_lat observer_lon observer_elev;
       let common_metadata =
         \<lparr>md_satellite_name = satellite_name, md_norad_id = norad_id,
          md_observer = \<lparr>md_latitude = observer_lat, md_longitude = observer_lon,
                         md_elevation_m = observer_elev\<rparr>,
          md_calculation_parameters =
            \<lparr>md_start = start_time_utc, md_end = end_time_utc,
             md_step_seconds = step_seconds, md_min_elevation_deg = min_elevation\<rparr>\<rparr>;
       st \<leftarrow> sweep1 sky satellite observer min_elevation end_time_utc step_seconds
               init_state start_time_utc;
       let st = last_pass1 st;
       Some (\<lparr>po_metadata = common_metadata, po_total_passes = pass_counter st,
               po_passes = passes_data st\<rparr>,
             \<lparr>eo_metadata = common_metadata, eo_ephemeris = ephemeris_data st\<rparr>)
     }"

subsection \<open>Variant 2\<close>

definition tle_source :: "int \<Rightarrow> string" where
  "tle_source norad_id = ''https://celestrak.org/NORAD/elements/gp.php?CATNR='' @ str_int norad_id"

definition get_tle :: "('p, 'o) skyfield \<Rightarrow> int \<Rightarrow> 'p satellite option" where
  \<comment> \<open>\<open>None\<close> is the \<^verbatim>\<open>RuntimeError\<close> raised when the catalogue cannot be loaded or
      holds no satellite\<close>
  "get_tle sky norad_id =
     (case tle_file sky (tle_source norad_id) of
        None \<Rightarrow> None
      | Some satellites \<Rightarrow> (case satellites of [] \<Rightarrow> None | s # _ \<Rightarrow> Some s))"

definition geometry2 ::
  "('p, 'o) skyfield \<Rightarrow> 'p satellite \<Rightarrow> (datetime \<Rightarrow> 'o option) \<Rightarrow> datetime \<Rightarrow> sample option" where
  "geometry2 sky satellite observer current_time =
     do {
       pos \<leftarrow> sat_at satellite current_time;
       (la, lo, el) \<leftarrow> subpoint sky pos;
       observer_pos \<leftarrow> observer current_time;
       (alt, az, dist) \<leftarrow> altaz sky pos observer_pos;
       Some \<lparr>alt_degrees = alt, az_degrees = az, dist_km = dist,
             sub_lat = la, sub_lon = lo, sub_elev_m = el\<rparr>
     }"

definition close_pass2 :: "pass_ev \<Rightarrow> pass_ev" where
  "close_pass2 p = p\<lparr>duration_sec := py_round (total_seconds (pass_end p - start p)) 1\<rparr>"

definition step2 ::
  "real \<Rightarrow> datetime \<Rightarrow> sample \<Rightarrow> (pass_ev, ephemeris_entry2) sweep_state
     \<Rightarrow> (pass_ev, ephemeris_entry2) sweep_state" where
  \<comment> \<open>the part of the \<^verbatim>\<open>try\<close> block after the geometry calls\<close>
  "step2 min_elevation current_time g st =
     (if min_elevation \<le> alt_degrees g then
        let st' =
          (case current_pass st of
             None \<Rightarrow>
               st\<lparr>pass_counter := pass_counter st + 1,
                  current_pass := Some \<lparr>pass_id = pass_counter st + 1, start = current_time,
                    pass_end = current_time, max_elevation = py_round (alt_degrees g) 2,
                    duration_sec = 0, events = []\<rparr>\<rparr>
           | Some p \<Rightarrow>
               st\<lparr>current_pass := Some (p\<lparr>pass_end := current_time,
                    max_elevation := max (max_elevation p) (py_round (alt_degrees g) 2)\<rparr>)\<rparr>);
          ephemeris_entry =
            \<lparr>eph_pass_id = pass_counter st', timestamp = current_time,
             geodetic = \<lparr>latitude = py_round (sub_lat g) 6, longitude = py_round (sub_lon g) 6,
                         altitude_km = py_round (sub_elev_m g / 1000) 3\<rparr>,
             topocentric = \<lparr>elevation = py_round (alt_degrees g) 3,
                            azimuth = py_round (az_degrees g) 3,
                            distance_km = py_round (dist_km g) 3\<rparr>\<rparr>
        in st'\<lparr>ephemeris_data := ephemeris_data st' @ [ephemeris_entry],
               current_pass := map_option (\<lambda>p. p\<lparr>events := events p @ [ephemeris_entry]\<rparr>)
                                 (current_pass st')\<rparr>
      else
        (case current_pass st of
           Some p \<Rightarrow> st\<lparr>passes_data := passes_data st @ [close_pass2 p], current_pass := None\<rparr>
         | None \<Rightarrow> st))"

definition iteration2 ::
  "('p, 'o) skyfield \<Rightarrow> 'p satellite \<Rightarrow> (datetime \<Rightarrow> 'o option) \<Rightarrow> real
     \<Rightarrow> (pass_ev, ephemeris_entry2) sweep_state \<Rightarrow> datetime
     \<Rightarrow> (pass_ev, ephemeris_entry2) sweep_state" where
  \<comment> \<open>the \<^verbatim>\<open>try\<close> statement of the loop body: an exception is printed and the
      state stays as it is\<close>
  "iteration2 sky satellite observer min_elevation st current_time =
     (case geometry2 sky satellite observer current_time of
        None \<Rightarrow> st
      | Some g \<Rightarrow> step2 min_elevation current_time g st)"

partial_function (option) sweep2 ::
  "('p, 'o) skyfield \<Rightarrow> 'p satellite \<Rightarrow> (datetime \<Rightarrow> 'o option) \<Rightarrow> real \<Rightarrow> datetime \<Rightarrow> int
     \<Rightarrow> (pass_ev, ephemeris_entry2) sweep_state \<Rightarrow> datetime
     \<Rightarrow> (pass_ev, ephemeris_entry2) sweep_state option" where
  "sweep2 sky satellite observer min_elevation end_time_utc step_seconds st current_time =
     (if current_time \<le> end_time_utc then
        sweep2 sky satellite observer min_elevation end_time_utc step_seconds
          (iteration2 sky satellite observer min_elevation st current_time)
          (current_time + timedelta step_seconds)
      else Some st)"

declare sweep2.simps [code]

definition last_pass2 :: "(pass_ev, 'e) sweep_state \<Rightarrow> (pass_ev, 'e) sweep_state" where
  "last_pass2 st =
     (case current_pass st of
        Some p \<Rightarrow> st\<lparr>passes_data := passes_data st @ [close_pass2 p]\<rparr>
      | None \<Rightarrow> st)"

record satellite_md =
  md_name :: string
  md_sat_norad_id :: int
  md_tle_source :: string

record calculation_md2 = calculation_md +
  md_utc_calculated :: datetime

record metadata2 =
  md_satellite :: satellite_md
  md_observer2 :: observer_md
  md_calculation :: calculation_md2

record statistics =
  total_passes :: int
  visible_time_total :: real

record passes_output2 =
  po_metadata2 :: metadata2
  po_statistics :: statistics
  po_passes2 :: "pass_ev list"

record ephemeris_output2 =
  eo_metadata2 :: metadata2
  eo_ephemeris2 :: "ephemeris_entry2 list"

definition calculate_and_save_data2 ::
  "('p, 'o) skyfield \<Rightarrow> datetime \<Rightarrow> int \<Rightarrow> real \<Rightarrow> real \<Rightarrow> datetime \<Rightarrow> datetime
     \<Rightarrow> int \<Rightarrow> real \<Rightarrow> real \<Rightarrow> (passes_output2 \<times> ephemeris_output2) option" where
  \<comment> \<open>\<open>now\<close> is what \<^verbatim>\<open>datetime.now(timezone.utc)\<close> reads\<close>
  "calculate_and_save_data2 sky now norad_id observer_lat observer_lon
       start_time_utc end_time_utc step_seconds observer_elev min_elevation =
     do {
       satellite \<leftarrow> get_tle sky norad_id;
       let observer = latlon sky observer_lat observer_lon observer_elev;
       let metadata =
         \<lparr>md_satellite = \<lparr>md_name = strip (sat_name satellite), md_sat_norad_id = norad_id,
                          md_tle_source = tle_source norad_id\<rparr>,
          md_observer2 = \<lparr>md_latitude = observer_lat, md_longitude = observer_lon,
                          md_elevation_m = observer_elev\<rparr>,
          md_calculation =
            \<lparr>md_start = start_time_utc, md_end = end_time_utc,
             md_step_seconds = step_seconds, md_min_elevation_deg = min_elevation,
             md_utc_calculated = now\<rparr>\<rparr>;
       st \<leftarrow> sweep2 sky satellite observer min_elevation end_time_utc step_seconds
               init_state start_time_utc;
       let st = last_pass2 st;
       Some (\<lparr>po_metadata2 = metadata,
               po_statistics = \<lparr>total_passes = pass_counter st,
                 visible_time_total = sum_list (map duration_sec (passes_data st))\<rparr>,
               po_passes2 = passes_data st\<rparr>,
             \<lparr>eo_metadata2 = metadata, eo_ephemeris2 = ephemeris_data st\<rparr>)
     }"

subsection \<open>The instants of the sweep\<close>

text \<open>The values \<^verbatim>\<open>current_time\<close> takes in a loop that ends: from the start, one step
  apart, while not after the end.\<close>

function sweep_times :: "datetime \<Rightarrow> datetime \<Rightarrow> int \<Rightarrow> datetime list" where
  "sweep_times current_time end_time_utc step_seconds =
     (if 0 < step_seconds \<and> current_time \<le> end_time_utc
      then current_time # sweep_times (current_time + timedelta step_seconds) end_time_utc step_seconds
      else [])"
  by pat_completeness auto
termination
  by (relation "measure (\<lambda>(t, e, s). nat (e - t + 1))") (auto simp: timedelta_def)

declare sweep_times.simps [simp del]

subsection \<open>The pass segmenter as the specification words it\<close>

text \<open>The two-state machine of the specification, with the ephemeris collector that reads
  its state: a sample is an instant, an elevation and the verdict of the classifier. It is
  the yardstick the two loops are compared with, and the carrier of the invariants.\<close>

datatype segmenter_state = IDLE | ACTIVE pass

record segmenter =
  seg_state :: segmenter_state
  seg_counter :: int
  seg_emitted :: "pass list"
  seg_records :: "ephemeris_key list"

definition segmenter_init :: segmenter where
  "segmenter_init = \<lparr>seg_state = IDLE, seg_counter = 0, seg_emitted = [], seg_records = []\<rparr>"

definition spec_close :: "pass \<Rightarrow> pass" where
  "spec_close p = p\<lparr>duration_sec := total_seconds (pass_end p - start p)\<rparr>"

fun segmenter_step :: "segmenter \<Rightarrow> datetime \<times> real \<times> bool \<Rightarrow> segmenter" where
  "segmenter_step m (t, elevation_deg, is_visible) =
     (case seg_state m of
        IDLE \<Rightarrow>
          if is_visible then
            m\<lparr>seg_state := ACTIVE \<lparr>pass_id = seg_counter m + 1, start = t, pass_end = t,
                 max_elevation = elevation_deg, duration_sec = 0\<rparr>,
              seg_counter := seg_counter m + 1,
              seg_records := seg_records m @ [\<lparr>eph_pass_id = seg_counter m + 1, timestamp = t\<rparr>]\<rparr>
          else m
      | ACTIVE p \<Rightarrow>
          if is_visible then
            m\<lparr>seg_state := ACTIVE (p\<lparr>pass_end := t,
                 max_elevation := max (max_elevation p) elevation_deg\<rparr>),
              seg_records := seg_records m @ [\<lparr>eph_pass_id = pass_id p, timestamp = t\<rparr>]\<rparr>
          else m\<lparr>seg_state := IDLE, seg_emitted := seg_emitted m @ [spec_close p]\<rparr>)"

definition segmenter_end :: "segmenter \<Rightarrow> pass list" where
  \<comment> \<open>the end of the sweep: a pass still open is closed and emitted like any other\<close>
  "segmenter_end m =
     (case seg_state m of IDLE \<Rightarrow> seg_emitted m | ACTIVE p \<Rightarrow> seg_emitted m @ [spec_close p])"

definition segmenter_run :: "(datetime \<times> real \<times> bool) list \<Rightarrow> segmenter" where
  "segmenter_run xs = foldl segmenter_step segmenter_init xs"

text \<open>The samples of a sweep: one for each instant whose geometry was computed, in the
  order of the sweep, each with its instant.\<close>

definition samples :: "(datetime \<Rightarrow> sample option) \<Rightarrow> datetime list \<Rightarrow> (datetime \<times> sample) list" where
  "samples geometry ts = List.map_filter (\<lambda>t. map_option (Pair t) (geometry t)) ts"

text \<open>What the segmenter is fed for a sample: \<open>rnd\<close> is what the program does to an
  elevation before it stores it in a pass, and the verdict is that of the raw elevation.\<close>

definition classify :: "(real \<Rightarrow> real) \<Rightarrow> real \<Rightarrow> datetime \<times> sample \<Rightarrow> datetime \<times> real \<times> bool" where
  "classify rnd min_elevation x =
     (fst x, rnd (alt_degrees (snd x)), min_elevation \<le> alt_degrees (snd x))"

definition sample_stream ::
  "(datetime \<Rightarrow> sample option) \<Rightarrow> (real \<Rightarrow> real) \<Rightarrow> real \<Rightarrow> datetime list
     \<Rightarrow> (datetime \<times> real \<times> bool) list" where
  "sample_stream geometry rnd min_elevation ts =
     map (classify rnd min_elevation) (samples geometry ts)"

text \<open>How a state of either loop is read as a state of the machine. A closed pass of
  variant 2 is compared up to its duration, which that variant rounds.\<close>

definition seg_of_current :: "'a pass_scheme option \<Rightarrow> segmenter_state" where
  "seg_of_current c = (case c of None \<Rightarrow> IDLE | Some p \<Rightarrow> ACTIVE (pass.truncate p))"

definition abs1 :: "(pass, ephemeris_entry1) sweep_state \<Rightarrow> segmenter" where
  "abs1 st =
     \<lparr>seg_state = seg_of_current (current_pass st), seg_counter = pass_counter st,
      seg_emitted = passes_data st,
      seg_records = map ephemeris_key.truncate (ephemeris_data st)\<rparr>"

definition abs2 :: "(pass_ev, ephemeris_entry2) sweep_state \<Rightarrow> segmenter" where
  "abs2 st =
     \<lparr>seg_state = seg_of_current (current_pass st), seg_counter = pass_counter st,
      seg_emitted = map (spec_close \<circ> pass.truncate) (passes_data st),
      seg_records = map ephemeris_key.truncate (ephemeris_data st)\<rparr>"

definition current_ok :: "('a pass_scheme, 'e) sweep_state \<Rightarrow> bool" where
  "current_ok st =
     (case current_pass st of None \<Rightarrow> True | Some p \<Rightarrow> pass_id p = pass_counter st)"

text \<open>The passes the machine knows: the emitted ones, then the open one.\<close>

definition all_passes :: "segmenter \<Rightarrow> pass list" where
  "all_passes m = seg_emitted m @ (case seg_state m of IDLE \<Rightarrow> [] | ACTIVE p \<Rightarrow> [p])"

definition ids_inv :: "segmenter \<Rightarrow> bool" where
  "ids_inv m \<longleftrightarrow>
     0 \<le> seg_counter m \<and> map pass_id (all_passes m) = [1..seg_counter m] \<and>
     (\<forall>e \<in> set (seg_records m). 1 \<le> eph_pass_id e \<and> eph_pass_id e \<le> seg_counter m)"

definition times_inv :: "(datetime \<times> real \<times> bool) list \<Rightarrow> segmenter \<Rightarrow> bool" where
  "times_inv xs m \<longleftrightarrow>
     (\<forall>p \<in> set (all_passes m).
        start p \<le> pass_end p \<and> start p \<in> fst ` set xs \<and> pass_end p \<in> fst ` set xs) \<and>
     sorted_wrt (\<lambda>p q. pass_end p < start q) (all_passes m) \<and>
     (\<forall>p \<in> set (seg_emitted m). duration_sec p = total_seconds (pass_end p - start p)) \<and>
     (case seg_state m of IDLE \<Rightarrow> True | ACTIVE p \<Rightarrow> xs \<noteq> [] \<and> pass_end p = fst (last xs))"

definition elev_inv :: "(datetime \<times> real \<times> bool) list \<Rightarrow> segmenter \<Rightarrow> bool" where
  "elev_inv xs m \<longleftrightarrow>
     (\<forall>p \<in> set (all_passes m).
        (\<exists>(t, el, v) \<in> set xs. start p \<le> t \<and> t \<le> pass_end p \<and> max_elevation p = el) \<and>
        (\<forall>(t, el, v) \<in> set xs. start p \<le> t \<and> t \<le> pass_end p \<longrightarrow> v \<and> el \<le> max_elevation p))"
text \<open>Two instants are held together when one pass spans both.\<close>

definition covered :: "segmenter \<Rightarrow> datetime \<Rightarrow> datetime \<Rightarrow> bool" where
  "covered m a b \<longleftrightarrow> (\<exists>p \<in> set (all_passes m). start p \<le> a \<and> b \<le> pass_end p)"

definition join_inv :: "(datetime \<times> real \<times> bool) list \<Rightarrow> segmenter \<Rightarrow> bool" where
  "join_inv xs m \<longleftrightarrow>
     (\<forall>x \<in> set xs. \<forall>y \<in> set xs.
        fst x \<le> fst y \<and> (\<forall>z \<in> set xs. fst x \<le> fst z \<and> fst z \<le> fst y \<longrightarrow> snd (snd z))
        \<longrightarrow> covered m (fst x) (fst y)) \<and>
     (case seg_state m of
        IDLE \<Rightarrow> xs = [] \<or> \<not> snd (snd (last xs))
      | ACTIVE p \<Rightarrow> (\<forall>x \<in> set xs. (\<forall>z \<in> set xs. fst x \<le> fst z \<longrightarrow> snd (snd z)) \<longrightarrow> start p \<le> fst x))"

text \<open>The samples of a whole run of each variant (none when the satellite cannot be built).\<close>

definition samples1 ::
  "('p, 'o) skyfield \<Rightarrow> string \<Rightarrow> string \<Rightarrow> real \<Rightarrow> real \<Rightarrow> real \<Rightarrow> datetime \<Rightarrow> datetime \<Rightarrow> int
     \<Rightarrow> (datetime \<times> sample) list" where
  "samples1 sky tle_line1 tle_line2 observer_lat observer_lon observer_elev
       start_time_utc end_time_utc step_seconds =
     (case EarthSatellite sky tle_line1 tle_line2 of
        None \<Rightarrow> []
      | Some satellite \<Rightarrow>
          samples (geometry1 sky satellite (latlon sky observer_lat observer_lon observer_elev))
            (sweep_times start_time_utc end_time_utc step_seconds))"

definition samples2 ::
  "('p, 'o) skyfield \<Rightarrow> int \<Rightarrow> real \<Rightarrow> real \<Rightarrow> real \<Rightarrow> datetime \<Rightarrow> datetime \<Rightarrow> int
     \<Rightarrow> (datetime \<times> sample) list" where
  "samples2 sky norad_id observer_lat observer_lon observer_elev
       start_time_utc end_time_utc step_seconds =
     (case get_tle sky norad_id of
        None \<Rightarrow> []
      | Some satellite \<Rightarrow>
          samples (geometry2 sky satellite (latlon sky observer_lat observer_lon observer_elev))
            (sweep_times start_time_utc end_time_utc step_seconds))"

definition round2 :: "real \<Rightarrow> real" where
  "round2 x = py_round x 2"

text \<open>What of a pass does not depend on the variant.\<close>

definition pass_view :: "'a pass_scheme \<Rightarrow> int \<times> datetime \<times> datetime \<times> real" where
  "pass_view p = (pass_id p, start p, pass_end p, max_elevation p)"

text \<open>An instant is visible when its geometry was computed and its elevation passes the
  test of the loop.\<close>

definition visible_at :: "(datetime \<Rightarrow> sample option) \<Rightarrow> real \<Rightarrow> datetime \<Rightarrow> bool" where
  "visible_at geometry min_elevation t =
     (case geometry t of None \<Rightarrow> False | Some g \<Rightarrow> min_elevation \<le> alt_degrees g)"

text \<open>The raw elevations of the samples that fall within a pass, in the order of the
  sweep.\<close>

definition window_elevations :: "(datetime \<times> sample) list \<Rightarrow> 'a pass_scheme \<Rightarrow> real list" where
  "window_elevations xs p =
     map (\<lambda>x. alt_degrees (snd x)) (filter (\<lambda>x. start p \<le> fst x \<and> fst x \<le> pass_end p) xs)"

subsection \<open>A synthetic geometry provider\<close>

text \<open>A small provider for concrete runs: a position is the instant it was asked for, the
  satellite is one light-second from the Earth's centre, the azimuth tells how long before
  the satellite's instant the observer was placed (in microseconds), and the propagator
  fails at the third second. The elevation follows a short table.\<close>

definition demo_elevation :: "int \<Rightarrow> real" where
  "demo_elevation p =
     (if p = 0 then 5 else if p = 1000000 then 10 else if p = 3000000 then 10.004
      else if p = 4000000 then 3 else if p = 5000000 then 20.0004 else 0)"

definition demo_satellite :: "int satellite" where
  "demo_satellite =
     \<lparr>satnum = 25544, sat_name = ''ISS (ZARYA)'',
      sat_at = (\<lambda>t. if t = 2000000 then None else Some t)\<rparr>"

definition demo_sky :: "(int, int) skyfield" where
  "demo_sky =
     \<lparr>EarthSatellite = (\<lambda>l1 l2. Some demo_satellite),
      tle_file = (\<lambda>url. Some [demo_satellite]),
      latlon = (\<lambda>la lo el t. Some t),
      distance = (\<lambda>p. Some 299792.458),
      altaz = (\<lambda>p ob. Some (demo_elevation p, real_of_int (p - ob), 1000)),
      subpoint = (\<lambda>p. Some (51.5, 37.25, 420000))\<rparr>"

text \<open>An answer of the catalogue to the name lookup: a name line, then the two element
  lines (cut short).\<close>

definition demo_response :: string where
  "demo_response = ''ISS (ZARYA)             '' @ [CHR 0x0A] @ ''1 25544U 98067A'' @ [CHR 0x0A] @ ''2 25544  51.6444''"

text \<open>The run used in the examples: six instants one second apart, threshold 10 degrees.
  What the two programs write for it:\<close>

definition demo_metadata1 :: "string \<Rightarrow> metadata1" where
  "demo_metadata1 nm =
     \<lparr>md_satellite_name = nm, md_norad_id = 25544,
      md_observer = \<lparr>md_latitude = 55.75, md_longitude = 37.5, md_elevation_m = 150\<rparr>,
      md_calculation_parameters =
        \<lparr>md_start = 0, md_end = 5000000, md_step_seconds = 1, md_min_elevation_deg = 10\<rparr>\<rparr>"

definition demo_passes1 :: "pass list" where
  "demo_passes1 =
     [\<lparr>pass_id = 1, start = 1000000, pass_end = 3000000, max_elevation = 10.004,
       duration_sec = 2\<rparr>,
      \<lparr>pass_id = 2, start = 5000000, pass_end = 5000000, max_elevation = 20.0004,
       duration_sec = 0\<rparr>]"

definition demo_entry1 :: "int \<Rightarrow> datetime \<Rightarrow> real \<Rightarrow> ephemeris_entry1" where
  "demo_entry1 i t el =
     \<lparr>eph_pass_id = i, timestamp = t,
      geodesic = \<lparr>lat = 51.5, lon = 37.25, height_m = 420000\<rparr>,
      relative = \<lparr>elevation = el, azimuth = 1000000, distance_km = 1000\<rparr>\<rparr>"

definition demo_ephemeris1 :: "ephemeris_entry1 list" where
  "demo_ephemeris1 =
     [demo_entry1 1 1000000 10, demo_entry1 1 3000000 10.004, demo_entry1 2 5000000 20]"

definition demo_output1 :: "string \<Rightarrow> passes_output1 \<times> ephemeris_output1" where
  "demo_output1 nm =
     (\<lparr>po_metadata = demo_metadata1 nm, po_total_passes = 2, po_passes = demo_passes1\<rparr>,
      \<lparr>eo_metadata = demo_metadata1 nm, eo_ephemeris = demo_ephemeris1\<rparr>)"

definition demo_metadata2 :: "datetime \<Rightarrow> metadata2" where
  "demo_metadata2 now =
     \<lparr>md_satellite =
        \<lparr>md_name = ''ISS (ZARYA)'', md_sat_norad_id = 25544,
         md_tle_source = ''https://celestrak.org/NORAD/elements/gp.php?CATNR=25544''\<rparr>,
      md_observer2 = \<lparr>md_latitude = 55.75, md_longitude = 37.5, md_elevation_m = 150\<rparr>,
      md_calculation =
        \<lparr>md_start = 0, md_end = 5000000, md_step_seconds = 1, md_min_elevation_deg = 10,
         md_utc_calculated = now\<rparr>\<rparr>"

definition demo_entry2 :: "int \<Rightarrow> datetime \<Rightarrow> real \<Rightarrow> ephemeris_entry2" where
  "demo_entry2 i t el =
     \<lparr>eph_pass_id = i, timestamp = t,
      geodetic = \<lparr>latitude = 51.5, longitude = 37.25, altitude_km = 420\<rparr>,
      topocentric = \<lparr>elevation = el, azimuth = 0, distance_km = 1000\<rparr>\<rparr>"

definition demo_ephemeris2 :: "ephemeris_entry2 list" where
  "demo_ephemeris2 =
     [demo_entry2 1 1000000 10, demo_entry2 1 3000000 10.004, demo_entry2 2 5000000 20]"

definition demo_passes2 :: "pass_ev list" where
  "demo_passes2 =
     [\<lparr>pass_id = 1, start = 1000000, pass_end = 3000000, max_elevation = 10,
       duration_sec = 2, events = [demo_entry2 1 1000000 10, demo_entry2 1 3000000 10.004]\<rparr>,
      \<lparr>pass_id = 2, start = 5000000, pass_end = 5000000, max_elevation = 20,
       duration_sec = 0, events = [demo_entry2 2 5000000 20]\<rparr>]"

definition demo_output2 :: "datetime \<Rightarrow> passes_output2 \<times> ephemeris_output2" where
  "demo_output2 now =
     (\<lparr>po_metadata2 = demo_metadata2 now,
       po_statistics = \<lparr>total_passes = 2, visible_time_total = 2\<rparr>,
       po_passes2 = demo_passes2\<rparr>,
      \<lparr>eo_metadata2 = demo_metadata2 now, eo_ephemeris2 = demo_ephemeris2\<rparr>)"

section \<open>The loops end, and what they compute\<close>

lemma sweep1_total:
  "0 < step_seconds \<Longrightarrow>
   sweep1 sky sat obs mn e step_seconds st t =
     Some (foldl (iteration1 sky sat obs mn) st (sweep_times t e step_seconds))"
proof (induction t e step_seconds arbitrary: st rule: sweep_times.induct)
  case (1 t e s)
  show ?case
  proof (cases "t \<le> e")
    case True
    with 1 show ?thesis
      by (subst sweep1.simps, subst sweep_times.simps) simp
  next
    case False
    then show ?thesis
      by (subst sweep1.simps, subst sweep_times.simps) simp
  qed
qed

lemma sweep1_stuck:
  assumes "sweep1 sky sat obs mn e step_seconds st t = Some st'"
  shows "step_seconds \<le> 0 \<longrightarrow> \<not> t \<le> e \<and> st' = st"
proof (rule sweep1.raw_induct[where P = "\<lambda>sky sat obs mn e s st t y. s \<le> 0 \<longrightarrow> \<not> t \<le> e \<and> y = st",
        OF _ assms])
  fix f and sky :: "('a, 'b) skyfield" and sat obs mn e s st t y
  assume IH: "\<And>sky sat obs mn e s st t y. f sky sat obs mn e s st t = Some y
                 \<Longrightarrow> s \<le> 0 \<longrightarrow> \<not> t \<le> e \<and> y = st"
    and eq: "(if t \<le> e then f sky sat obs mn e s (iteration1 sky sat obs mn st t) (t + timedelta s)
              else Some st) = Some y"
  show "s \<le> 0 \<longrightarrow> \<not> t \<le> e \<and> y = st"
  proof (cases "t \<le> e")
    case True
    with eq have "f sky sat obs mn e s (iteration1 sky sat obs mn st t) (t + timedelta s) = Some y"
      by simp
    from IH[OF this] True show ?thesis by (auto simp: timedelta_def)
  next
    case False
    with eq show ?thesis by simp
  qed
qed

lemma sweep1_result:
  assumes "sweep1 sky sat obs mn e step_seconds st t = Some st'"
  shows "st' = foldl (iteration1 sky sat obs mn) st (sweep_times t e step_seconds)"
proof (cases "0 < step_seconds")
  case True
  with assms show ?thesis by (simp add: sweep1_total)
next
  case False
  with sweep1_stuck[OF assms] have "\<not> t \<le> e" "st' = st" by auto
  then show ?thesis by (subst sweep_times.simps) simp
qed

lemma sweep2_total:
  "0 < step_seconds \<Longrightarrow>
   sweep2 sky sat obs mn e step_seconds st t =
     Some (foldl (iteration2 sky sat obs mn) st (sweep_times t e step_seconds))"
proof (induction t e step_seconds arbitrary: st rule: sweep_times.induct)
  case (1 t e s)
  show ?case
  proof (cases "t \<le> e")
    case True
    with 1 show ?thesis
      by (subst sweep2.simps, subst sweep_times.simps) simp
  next
    case False
    then show ?thesis
      by (subst sweep2.simps, subst sweep_times.simps) simp
  qed
qed

lemma sweep2_stuck:
  assumes "sweep2 sky sat obs mn e step_seconds st t = Some st'"
  shows "step_seconds \<le> 0 \<longrightarrow> \<not> t \<le> e \<and> st' = st"
proof (rule sweep2.raw_induct[where P = "\<lambda>sky sat obs mn e s st t y. s \<le> 0 \<longrightarrow> \<not> t \<le> e \<and> y = st",
        OF _ assms])
  fix f and sky :: "('a, 'b) skyfield" and sat obs mn e s st t y
  assume IH: "\<And>sky sat obs mn e s st t y. f sky sat obs mn e s st t = Some y
                 \<Longrightarrow> s \<le> 0 \<longrightarrow> \<not> t \<le> e \<and> y = st"
    and eq: "(if t \<le> e then f sky sat obs mn e s (iteration2 sky sat obs mn st t) (t + timedelta s)
              else Some st) = Some y"
  show "s \<le> 0 \<longrightarrow> \<not> t \<le> e \<and> y = st"
  proof (cases "t \<le> e")
    case True
    with eq have "f sky sat obs mn e s (iteration2 sky sat obs mn st t) (t + timedelta s) = Some y"
      by simp
    from IH[OF this] True show ?thesis by (auto simp: timedelta_def)
  next
    case False
    with eq show ?thesis by simp
  qed
qed

lemma sweep2_result:
  assumes "sweep2 sky sat obs mn e step_seconds st t = Some st'"
  shows "st' = foldl (iteration2 sky sat obs mn) st (sweep_times t e step_seconds)"
proof (cases "0 < step_seconds")
  case True
  with assms show ?thesis by (simp add: sweep2_total)
next
  case False
  with sweep2_stuck[OF assms] have "\<not> t \<le> e" "st' = st" by auto
  then show ?thesis by (subst sweep_times.simps) simp
qed

section \<open>The loops refine the segmenter\<close>

lemma step1_sim:
  assumes "current_ok st"
  shows "current_ok (step1 mn t g st) \<and>
         abs1 (step1 mn t g st) = segmenter_step (abs1 st) (t, alt_degrees g, mn \<le> alt_degrees g)"
  using assms
  by (cases "current_pass st")
     (auto simp: step1_def abs1_def current_ok_def seg_of_current_def Let_def pass.truncate_def
        ephemeris_key.truncate_def close_pass1_def spec_close_def)

lemma step2_sim:
  assumes "current_ok st"
  shows "current_ok (step2 mn t g st) \<and>
         abs2 (step2 mn t g st) =
           segmenter_step (abs2 st) (t, py_round (alt_degrees g) 2, mn \<le> alt_degrees g)"
  using assms
  by (cases "current_pass st")
     (auto simp: step2_def abs2_def current_ok_def seg_of_current_def Let_def pass.truncate_def
        ephemeris_key.truncate_def close_pass2_def spec_close_def)

lemma samples_Nil [simp]: "samples geometry [] = []"
  by (simp add: samples_def)

lemma samples_Cons:
  "samples geometry (t # ts) =
     (case geometry t of
        None \<Rightarrow> samples geometry ts
      | Some g \<Rightarrow> (t, g) # samples geometry ts)"
  by (simp add: samples_def List.map_filter_simps split: option.splits)

lemma sample_stream_Nil [simp]: "sample_stream geometry rnd mn [] = []"
  by (simp add: sample_stream_def)

lemma sample_stream_Cons:
  "sample_stream geometry rnd mn (t # ts) =
     (case geometry t of
        None \<Rightarrow> sample_stream geometry rnd mn ts
      | Some g \<Rightarrow> (t, rnd (alt_degrees g), mn \<le> alt_degrees g) # sample_stream geometry rnd mn ts)"
  by (simp add: sample_stream_def samples_Cons classify_def split: option.splits)

lemma sweep1_sim:
  "current_ok st \<Longrightarrow>
   current_ok (foldl (iteration1 sky sat obs mn) st ts) \<and>
   abs1 (foldl (iteration1 sky sat obs mn) st ts) =
     foldl segmenter_step (abs1 st) (sample_stream (geometry1 sky sat obs) id mn ts)"
proof (induction ts arbitrary: st)
  case Nil
  then show ?case by simp
next
  case (Cons t ts)
  show ?case
  proof (cases "geometry1 sky sat obs t")
    case None
    with Cons show ?thesis by (simp add: iteration1_def sample_stream_Cons)
  next
    case (Some g)
    from step1_sim[OF Cons.prems, of mn t g] Cons.IH[of "step1 mn t g st"] Some
    show ?thesis by (simp add: iteration1_def sample_stream_Cons)
  qed
qed

lemma sweep2_sim:
  "current_ok st \<Longrightarrow>
   current_ok (foldl (iteration2 sky sat obs mn) st ts) \<and>
   abs2 (foldl (iteration2 sky sat obs mn) st ts) =
     foldl segmenter_step (abs2 st)
       (sample_stream (geometry2 sky sat obs) (\<lambda>x. py_round x 2) mn ts)"
proof (induction ts arbitrary: st)
  case Nil
  then show ?case by simp
next
  case (Cons t ts)
  show ?case
  proof (cases "geometry2 sky sat obs t")
    case None
    with Cons show ?thesis by (simp add: iteration2_def sample_stream_Cons)
  next
    case (Some g)
    from step2_sim[OF Cons.prems, of mn t g] Cons.IH[of "step2 mn t g st"] Some
    show ?thesis by (simp add: iteration2_def sample_stream_Cons)
  qed
qed

lemma segmenter_run_snoc:
  "segmenter_run (xs @ [x]) = segmenter_step (segmenter_run xs) x"
  by (simp add: segmenter_run_def)

lemma segmenter_run_Nil: "segmenter_run [] = segmenter_init"
  by (simp add: segmenter_run_def)

lemma ids_inv_step:
  assumes "ids_inv m"
  shows "ids_inv (segmenter_step m x)"
proof -
  obtain t el v where x: "x = (t, el, v)" by (cases x) auto
  show ?thesis
  proof (cases "seg_state m")
    case IDLE
    with assms x show ?thesis
      by (auto simp: ids_inv_def all_passes_def upto_rec2)
  next
    case (ACTIVE p)
    then have "pass_id p \<in> set (map pass_id (all_passes m))"
      by (simp add: all_passes_def)
    with assms have "1 \<le> pass_id p \<and> pass_id p \<le> seg_counter m"
      by (simp add: ids_inv_def)
    with ACTIVE assms x show ?thesis
      by (auto simp: ids_inv_def all_passes_def spec_close_def)
  qed
qed

lemma ids_inv_run: "ids_inv (segmenter_run xs)"
proof (induction xs rule: rev_induct)
  case Nil
  show ?case by (simp add: segmenter_run_Nil segmenter_init_def ids_inv_def all_passes_def)
next
  case (snoc x xs)
  then show ?case by (simp add: segmenter_run_snoc ids_inv_step)
qed

section \<open>Invariants of the segmenter\<close>

lemma times_inv_step:
  assumes inv: "times_inv xs m" and later: "\<forall>y \<in> set xs. fst y < t"
  shows "times_inv (xs @ [(t, el, v)]) (segmenter_step m (t, el, v))"
proof (cases "seg_state m")
  case IDLE
  show ?thesis
  proof (cases v)
    case True
    from inv later have "\<forall>q \<in> set (seg_emitted m). pass_end q < t"
      by (fastforce simp: times_inv_def all_passes_def)
    with inv IDLE True show ?thesis
      by (auto simp: times_inv_def all_passes_def sorted_wrt_append)
  next
    case False
    with inv IDLE show ?thesis
      by (auto simp: times_inv_def all_passes_def)
  qed
next
  case (ACTIVE p)
  from inv ACTIVE have p: "start p \<le> pass_end p" "pass_end p \<in> fst ` set xs"
    "start p \<in> fst ` set xs"
    by (auto simp: times_inv_def all_passes_def)
  with later have "pass_end p < t" by auto
  with inv ACTIVE p show ?thesis
    by (cases v) (auto simp: times_inv_def all_passes_def sorted_wrt_append spec_close_def)
qed

lemma times_inv_run:
  "sorted_wrt (<) (map fst xs) \<Longrightarrow> times_inv xs (segmenter_run xs)"
proof (induction xs rule: rev_induct)
  case Nil
  show ?case by (simp add: segmenter_run_Nil segmenter_init_def times_inv_def all_passes_def)
next
  case (snoc x xs)
  obtain t el v where x: "x = (t, el, v)" by (cases x) auto
  from snoc.prems have "sorted_wrt (<) (map fst xs)" and "\<forall>y \<in> set xs. fst y < t"
    by (auto simp: sorted_wrt_append x)
  with snoc.IH have "times_inv (xs @ [(t, el, v)]) (segmenter_step (segmenter_run xs) (t, el, v))"
    by (intro times_inv_step) auto
  then show ?case
    by (simp only: segmenter_run_snoc x)
qed

lemma sorted_times_last:
  fixes xs :: "(datetime \<times> 'a) list"
  assumes "sorted_wrt (<) (map fst xs)" and "y \<in> set xs"
  shows "fst y \<le> fst (last xs)"
proof -
  from assms(2) have ne: "xs \<noteq> []" by auto
  then have "xs = butlast xs @ [last xs]" by simp
  then obtain ys z where xs: "xs = ys @ [z]" by blast
  with assms show ?thesis by (auto simp: sorted_wrt_append)
qed

lemma elev_inv_step:
  assumes inv: "elev_inv xs m" and tinv: "times_inv xs m"
    and sorted: "sorted_wrt (<) (map fst xs)" and later: "\<forall>y \<in> set xs. fst y < t"
  shows "elev_inv (xs @ [(t, el, v)]) (segmenter_step m (t, el, v))"
proof -
  have closed: "\<forall>q \<in> set (all_passes m). pass_end q < t"
    using tinv later by (fastforce simp: times_inv_def)
  have old: "\<forall>q \<in> set (all_passes m).
        (\<exists>(t', el', v') \<in> set (xs @ [(t, el, v)]).
            start q \<le> t' \<and> t' \<le> pass_end q \<and> max_elevation q = el') \<and>
        (\<forall>(t', el', v') \<in> set (xs @ [(t, el, v)]).
            start q \<le> t' \<and> t' \<le> pass_end q \<longrightarrow> v' \<and> el' \<le> max_elevation q)"
    using inv closed by (fastforce simp: elev_inv_def)
  show ?thesis
  proof (cases "seg_state m")
    case IDLE
    show ?thesis
    proof (cases v)
      case True
      have "\<forall>(t', el', v') \<in> set xs. t \<le> t' \<longrightarrow> False"
        using later by fastforce
      with old IDLE True show ?thesis
        by (auto simp: elev_inv_def all_passes_def)
    next
      case False
      with old IDLE show ?thesis
        by (simp add: elev_inv_def all_passes_def)
    qed
  next
    case (ACTIVE p)
    then have pin: "p \<in> set (all_passes m)" by (simp add: all_passes_def)
    show ?thesis
    proof (cases v)
      case False
      have "\<forall>q \<in> set (all_passes m). q = p \<or> q \<in> set (seg_emitted m)"
        using ACTIVE by (auto simp: all_passes_def)
      with old pin ACTIVE False show ?thesis
        by (auto simp: elev_inv_def all_passes_def spec_close_def)
    next
      case True
      from tinv ACTIVE have last: "pass_end p = fst (last xs)" "start p \<le> pass_end p"
        by (auto simp: times_inv_def all_passes_def)
      from closed pin have "pass_end p < t" by auto
      let ?p' = "p\<lparr>pass_end := t, max_elevation := max (max_elevation p) el\<rparr>"
      from inv pin obtain t0 el0 v0 where s0: "(t0, el0, v0) \<in> set xs" "start p \<le> t0"
        "t0 \<le> pass_end p" "max_elevation p = el0"
        by (fastforce simp: elev_inv_def)
      have att: "\<exists>(t', el', v') \<in> set (xs @ [(t, el, v)]).
            start ?p' \<le> t' \<and> t' \<le> pass_end ?p' \<and> max_elevation ?p' = el'"
      proof (cases "max_elevation p \<le> el")
        case True
        with last \<open>pass_end p < t\<close> show ?thesis by (auto simp: max_def)
      next
        case False
        with s0 \<open>pass_end p < t\<close> show ?thesis by (force simp: max_def)
      qed
      have bound: "\<forall>(t', el', v') \<in> set (xs @ [(t, el, v)]).
            start ?p' \<le> t' \<and> t' \<le> pass_end ?p' \<longrightarrow> v' \<and> el' \<le> max_elevation ?p'"
      proof -
        have "v' \<and> el' \<le> max (max_elevation p) el"
          if "(t', el', v') \<in> set xs" "start p \<le> t'" for t' el' v'
        proof -
          from sorted_times_last[OF sorted that(1)] last have "t' \<le> pass_end p" by simp
          with inv pin that have "v' \<and> el' \<le> max_elevation p"
            by (fastforce simp: elev_inv_def)
          then show ?thesis by auto
        qed
        with True show ?thesis by auto
      qed
      have "\<forall>q \<in> set (seg_emitted m). q \<in> set (all_passes m)"
        by (simp add: all_passes_def)
      with old att bound ACTIVE True show ?thesis
        by (simp add: elev_inv_def all_passes_def)
    qed
  qed
qed

lemma elev_inv_run:
  "sorted_wrt (<) (map fst xs) \<Longrightarrow> elev_inv xs (segmenter_run xs)"
proof (induction xs rule: rev_induct)
  case Nil
  show ?case by (simp add: segmenter_run_Nil segmenter_init_def elev_inv_def all_passes_def)
next
  case (snoc x xs)
  obtain t el v where x: "x = (t, el, v)" by (cases x) auto
  from snoc.prems have s: "sorted_wrt (<) (map fst xs)" and l: "\<forall>y \<in> set xs. fst y < t"
    by (auto simp: sorted_wrt_append x)
  with snoc.IH times_inv_run[OF s]
  have "elev_inv (xs @ [(t, el, v)]) (segmenter_step (segmenter_run xs) (t, el, v))"
    by (intro elev_inv_step) auto
  then show ?case
    by (simp only: segmenter_run_snoc x)
qed

lemma covered_step:
  assumes c: "covered m a b" and t: "times_inv xs m" and l: "\<forall>y \<in> set xs. fst y < t"
  shows "covered (segmenter_step m (t, el, v)) a b"
proof -
  from c obtain p where p: "p \<in> set (all_passes m)" "start p \<le> a" "b \<le> pass_end p"
    by (auto simp: covered_def)
  show ?thesis
  proof (cases "seg_state m")
    case IDLE
    with p show ?thesis
      by (cases v) (auto simp: covered_def all_passes_def)
  next
    case (ACTIVE q)
    from t ACTIVE l have "pass_end q < t"
      by (fastforce simp: times_inv_def all_passes_def)
    with p ACTIVE show ?thesis
      by (cases v) (fastforce simp: covered_def all_passes_def spec_close_def)+
  qed
qed

lemma join_inv_step:
  assumes j: "join_inv xs m" and ti: "times_inv xs m"
    and sorted: "sorted_wrt (<) (map fst xs)" and later: "\<forall>y \<in> set xs. fst y < t"
  shows "join_inv (xs @ [(t, el, v)]) (segmenter_step m (t, el, v))"
proof -
  let ?m' = "segmenter_step m (t, el, v)"
  let ?xs' = "xs @ [(t, el, v)]"
  have old: "covered ?m' (fst x) (fst y)"
    if "x \<in> set xs" "y \<in> set xs" "fst x \<le> fst y"
      "\<forall>z \<in> set ?xs'. fst x \<le> fst z \<and> fst z \<le> fst y \<longrightarrow> snd (snd z)" for x y
  proof -
    from that j have "covered m (fst x) (fst y)"
      by (simp add: join_inv_def)
    then show ?thesis by (rule covered_step[OF _ ti later])
  qed
  have tail: "snd (snd (last xs))"
    if "x \<in> set xs" "\<forall>z \<in> set xs. fst x \<le> fst z \<longrightarrow> snd (snd z)" for x
  proof -
    from that(1) have "xs \<noteq> []" by auto
    then have "last xs \<in> set xs" by simp
    with that sorted_times_last[OF sorted that(1)] show ?thesis by blast
  qed
  show ?thesis
  proof (cases v)
    case False
    have st: "seg_state ?m' = IDLE"
      using False by (cases "seg_state m") simp_all
    have c: "covered ?m' (fst x) (fst y)"
      if "x \<in> set ?xs'" "y \<in> set ?xs'" "fst x \<le> fst y"
        "\<forall>z \<in> set ?xs'. fst x \<le> fst z \<and> fst z \<le> fst y \<longrightarrow> snd (snd z)" for x y
    proof -
      from that(1,3,4) False have "x \<in> set xs" by auto
      moreover from that(2,3,4) False have "y \<in> set xs" by auto
      ultimately show ?thesis using that by (intro old)
    qed
    have lastnv: "\<not> snd (snd (last ?xs'))" using False by simp
    show ?thesis
      unfolding join_inv_def st segmenter_state.case
      using c lastnv by blast
  next
    case True
    show ?thesis
    proof (cases "seg_state m")
      case IDLE
      from j IDLE have idle: "xs = [] \<or> \<not> snd (snd (last xs))"
        by (simp add: join_inv_def)
      have st: "seg_state ?m' = ACTIVE \<lparr>pass_id = seg_counter m + 1, start = t, pass_end = t,
                 max_elevation = el, duration_sec = 0\<rparr>"
        using IDLE True by simp
      have new: "covered ?m' t t"
        using st by (simp add: covered_def all_passes_def)
      have part1: "covered ?m' (fst x) (fst y)"
        if "x \<in> set ?xs'" "y \<in> set ?xs'" "fst x \<le> fst y"
          "\<forall>z \<in> set ?xs'. fst x \<le> fst z \<and> fst z \<le> fst y \<longrightarrow> snd (snd z)" for x y
      proof (cases "y \<in> set xs")
        case yold: True
        with that(1,3) later have "x \<in> set xs" by auto
        with yold that show ?thesis by (intro old)
      next
        case ynew: False
        with that(2) have y: "y = (t, el, v)" by simp
        show ?thesis
        proof (cases "x \<in> set xs")
          case True
          with that(4) y later have "\<forall>z \<in> set xs. fst x \<le> fst z \<longrightarrow> snd (snd z)"
            by fastforce
          from tail[OF True this] idle True show ?thesis by auto
        next
          case False
          with that(1) have "x = (t, el, v)" by simp
          with y new show ?thesis by simp
        qed
      qed
      have part2: "t \<le> fst x"
        if "x \<in> set ?xs'" "\<forall>z \<in> set ?xs'. fst x \<le> fst z \<longrightarrow> snd (snd z)" for x
      proof (cases "x \<in> set xs")
        case True
        with that(2) have "\<forall>z \<in> set xs. fst x \<le> fst z \<longrightarrow> snd (snd z)" by simp
        from tail[OF True this] idle True show ?thesis by auto
      next
        case False
        with that(1) show ?thesis by simp
      qed
      show ?thesis
        unfolding join_inv_def st segmenter_state.case pass.simps
        using part1 part2 by blast
    next
      case (ACTIVE p)
      from j ACTIVE have act: "\<forall>x \<in> set xs. (\<forall>z \<in> set xs. fst x \<le> fst z \<longrightarrow> snd (snd z))
          \<longrightarrow> start p \<le> fst x"
        by (simp add: join_inv_def)
      from ti ACTIVE later have pe: "start p \<le> pass_end p" "pass_end p < t"
        by (fastforce simp: times_inv_def all_passes_def)+
      have st: "seg_state ?m' = ACTIVE (p\<lparr>pass_end := t,
                 max_elevation := max (max_elevation p) el\<rparr>)"
        using ACTIVE True by simp
      have cov: "covered ?m' a t" if "start p \<le> a" for a
        using st that by (simp add: covered_def all_passes_def)
      have part1: "covered ?m' (fst x) (fst y)"
        if "x \<in> set ?xs'" "y \<in> set ?xs'" "fst x \<le> fst y"
          "\<forall>z \<in> set ?xs'. fst x \<le> fst z \<and> fst z \<le> fst y \<longrightarrow> snd (snd z)" for x y
      proof (cases "y \<in> set xs")
        case yold: True
        with that(1,3) later have "x \<in> set xs" by auto
        with yold that show ?thesis by (intro old)
      next
        case ynew: False
        with that(2) have y: "y = (t, el, v)" by simp
        show ?thesis
        proof (cases "x \<in> set xs")
          case True
          with that(4) y later have "\<forall>z \<in> set xs. fst x \<le> fst z \<longrightarrow> snd (snd z)"
            by fastforce
          with act True have "start p \<le> fst x" by blast
          with y cov show ?thesis by simp
        next
          case False
          with that(1) have "x = (t, el, v)" by simp
          with y cov pe show ?thesis by simp
        qed
      qed
      have part2: "start p \<le> fst x"
        if "x \<in> set ?xs'" "\<forall>z \<in> set ?xs'. fst x \<le> fst z \<longrightarrow> snd (snd z)" for x
      proof (cases "x \<in> set xs")
        case True
        with that(2) have "\<forall>z \<in> set xs. fst x \<le> fst z \<longrightarrow> snd (snd z)" by simp
        with act True show ?thesis by blast
      next
        case False
        with that(1) pe show ?thesis by simp
      qed
      have sp: "start (p\<lparr>pass_end := t, max_elevation := max (max_elevation p) el\<rparr>) = start p"
        by simp
      show ?thesis
        unfolding join_inv_def st segmenter_state.case sp
        using part1 part2 by blast
    qed
  qed
qed

lemma join_inv_run:
  "sorted_wrt (<) (map fst xs) \<Longrightarrow> join_inv xs (segmenter_run xs)"
proof (induction xs rule: rev_induct)
  case Nil
  show ?case by (simp add: segmenter_run_Nil segmenter_init_def join_inv_def)
next
  case (snoc x xs)
  obtain t el v where x: "x = (t, el, v)" by (cases x) auto
  from snoc.prems have s: "sorted_wrt (<) (map fst xs)" and l: "\<forall>y \<in> set xs. fst y < t"
    by (auto simp: sorted_wrt_append x)
  with snoc.IH times_inv_run[OF s]
  have "join_inv (xs @ [(t, el, v)]) (segmenter_step (segmenter_run xs) (t, el, v))"
    by (intro join_inv_step) auto
  then show ?case
    by (simp only: segmenter_run_snoc x)
qed

section \<open>From the reports to the segmenter\<close>

lemma abs1_init: "abs1 init_state = segmenter_init"
  by (simp add: abs1_def init_state_def segmenter_init_def seg_of_current_def)

lemma abs2_init: "abs2 init_state = segmenter_init"
  by (simp add: abs2_def init_state_def segmenter_init_def seg_of_current_def)

lemma current_ok_init: "current_ok init_state"
  by (simp add: current_ok_def init_state_def)

lemma last_pass1_abs:
  "passes_data (last_pass1 st) = segmenter_end (abs1 st)"
  "pass_counter (last_pass1 st) = seg_counter (abs1 st)"
  "map ephemeris_key.truncate (ephemeris_data (last_pass1 st)) = seg_records (abs1 st)"
  by (auto simp: last_pass1_def abs1_def segmenter_end_def seg_of_current_def close_pass1_def
        spec_close_def pass.truncate_def split: option.splits)

lemma last_pass2_abs:
  "map (spec_close \<circ> pass.truncate) (passes_data (last_pass2 st)) = segmenter_end (abs2 st)"
  "pass_counter (last_pass2 st) = seg_counter (abs2 st)"
  "map ephemeris_key.truncate (ephemeris_data (last_pass2 st)) = seg_records (abs2 st)"
  by (auto simp: last_pass2_def abs2_def segmenter_end_def seg_of_current_def close_pass2_def
        spec_close_def pass.truncate_def split: option.splits)

lemma calc1_run:
  assumes "calculate_and_save_data1 sky resp l1 l2 la lo s e step elev mn = Some (po, eo)"
  defines "m \<equiv> segmenter_run (map (classify id mn) (samples1 sky l1 l2 la lo elev s e step))"
  shows "po_passes po = segmenter_end m"
    and "po_total_passes po = seg_counter m"
    and "map ephemeris_key.truncate (eo_ephemeris eo) = seg_records m"
proof -
  from assms(1) obtain sat st where
    sat: "EarthSatellite sky l1 l2 = Some sat" and
    sw: "sweep1 sky sat (latlon sky la lo elev) mn e step init_state s = Some st" and
    po: "po_passes po = passes_data (last_pass1 st)"
        "po_total_passes po = pass_counter (last_pass1 st)"
        "eo_ephemeris eo = ephemeris_data (last_pass1 st)"
    by (auto simp: calculate_and_save_data1_def Let_def split: bind_splits)
  from sweep1_result[OF sw]
    sweep1_sim[OF current_ok_init, where sky = sky and sat = sat and mn = mn
      and obs = "latlon sky la lo elev" and ts = "sweep_times s e step"]
  have "abs1 st = m"
    by (simp add: m_def abs1_init segmenter_run_def samples1_def sat sample_stream_def)
  with po show "po_passes po = segmenter_end m" "po_total_passes po = seg_counter m"
    "map ephemeris_key.truncate (eo_ephemeris eo) = seg_records m"
    by (simp_all add: last_pass1_abs)
qed

lemma calc2_run:
  assumes "calculate_and_save_data2 sky now nid la lo s e step elev mn = Some (po, eo)"
  defines "m \<equiv> segmenter_run (map (classify round2 mn) (samples2 sky nid la lo elev s e step))"
  shows "map (spec_close \<circ> pass.truncate) (po_passes2 po) = segmenter_end m"
    and "total_passes (po_statistics po) = seg_counter m"
    and "map ephemeris_key.truncate (eo_ephemeris2 eo) = seg_records m"
proof -
  from assms(1) obtain sat st where
    sat: "get_tle sky nid = Some sat" and
    sw: "sweep2 sky sat (latlon sky la lo elev) mn e step init_state s = Some st" and
    po: "po_passes2 po = passes_data (last_pass2 st)"
        "total_passes (po_statistics po) = pass_counter (last_pass2 st)"
        "eo_ephemeris2 eo = ephemeris_data (last_pass2 st)"
    by (auto simp: calculate_and_save_data2_def Let_def split: bind_splits)
  have "round2 = (\<lambda>x. py_round x 2)" by (simp add: round2_def fun_eq_iff)
  with sweep2_result[OF sw]
    sweep2_sim[OF current_ok_init, where sky = sky and sat = sat and mn = mn
      and obs = "latlon sky la lo elev" and ts = "sweep_times s e step"]
  have "abs2 st = m"
    by (simp add: m_def abs2_init segmenter_run_def samples2_def sat sample_stream_def)
  with po show "map (spec_close \<circ> pass.truncate) (po_passes2 po) = segmenter_end m"
    "total_passes (po_statistics po) = seg_counter m"
    "map ephemeris_key.truncate (eo_ephemeris2 eo) = seg_records m"
    by (simp_all add: last_pass2_abs)
qed

section \<open>The instants and the samples of a sweep\<close>

lemma sweep_times_set:
  "x \<in> set (sweep_times t e s) \<Longrightarrow> t \<le> x \<and> x \<le> e \<and> 0 < s \<and> (\<exists>k. x = t + k * timedelta s)"
proof (induction t e s rule: sweep_times.induct)
  case (1 t e s)
  from "1.prems" have c: "0 < s" "t \<le> e"
    by (subst (asm) sweep_times.simps, simp split: if_splits)+
  with "1.prems" have "x = t \<or> x \<in> set (sweep_times (t + timedelta s) e s)"
    by (subst (asm) sweep_times.simps) simp
  then show ?case
  proof
    assume "x = t"
    with c show ?thesis by (auto intro: exI[of _ 0])
  next
    assume "x \<in> set (sweep_times (t + timedelta s) e s)"
    with "1.IH" c obtain k where "t + timedelta s \<le> x" "x \<le> e" "x = t + timedelta s + k * timedelta s"
      by auto
    with c show ?thesis
      by (auto simp: timedelta_def intro!: exI[of _ "k + 1"] simp: algebra_simps)
  qed
qed

lemma sweep_times_sorted: "sorted_wrt (<) (sweep_times t e s)"
proof (induction t e s rule: sweep_times.induct)
  case (1 t e s)
  show ?case
  proof (cases "0 < s \<and> t \<le> e")
    case True
    have "\<forall>x \<in> set (sweep_times (t + timedelta s) e s). t < x"
      using sweep_times_set[of _ "t + timedelta s" e s] True
      by (fastforce simp: timedelta_def)
    moreover from True "1.IH" have "sorted_wrt (<) (sweep_times (t + timedelta s) e s)"
      by simp
    moreover from True have "sweep_times t e s = t # sweep_times (t + timedelta s) e s"
      by (subst sweep_times.simps) simp
    ultimately show ?thesis by simp
  next
    case False
    then have "sweep_times t e s = []" by (subst sweep_times.simps) simp
    then show ?thesis by simp
  qed
qed

lemma samples_fst: "map fst (samples geometry ts) = filter (\<lambda>t. geometry t \<noteq> None) ts"
  by (induction ts) (auto simp: samples_Cons split: option.splits)

lemma samples_set: "(t, g) \<in> set (samples geometry ts) \<longleftrightarrow> t \<in> set ts \<and> geometry t = Some g"
  by (induction ts) (auto simp: samples_Cons split: option.splits)

lemma samples_sorted:
  "sorted_wrt (<) (ts :: datetime list) \<Longrightarrow> sorted_wrt (<) (map fst (samples geometry ts))"
  by (simp add: samples_fst sorted_wrt_filter)

lemma classify_fst [simp]: "map fst (map (classify rnd mn) xs) = map fst xs"
  by (simp add: classify_def comp_def)

lemma samples1_sorted:
  "sorted_wrt (<) (map fst (samples1 sky l1 l2 la lo elev s e step))"
  by (simp add: samples1_def samples_sorted sweep_times_sorted split: option.splits)

lemma samples2_sorted:
  "sorted_wrt (<) (map fst (samples2 sky nid la lo elev s e step))"
  by (simp add: samples2_def samples_sorted sweep_times_sorted split: option.splits)

section \<open>Rounding\<close>

lemma round_half_even_int [simp]: "round_half_even (of_int k) = k"
  by (simp add: round_half_even_def)

lemma round_half_even_bounds:
  "\<lfloor>x\<rfloor> \<le> round_half_even x" "round_half_even x \<le> \<lfloor>x\<rfloor> + 1"
  by (simp_all add: round_half_even_def Let_def)

lemma round_half_even_mono:
  assumes "x \<le> y"
  shows "round_half_even x \<le> round_half_even y"
proof (cases "\<lfloor>x\<rfloor> = \<lfloor>y\<rfloor>")
  case True
  with assms show ?thesis
    by (auto simp: round_half_even_def Let_def)
next
  case False
  with floor_mono[OF assms] have "\<lfloor>x\<rfloor> + 1 \<le> \<lfloor>y\<rfloor>" by simp
  with round_half_even_bounds(2)[of x] round_half_even_bounds(1)[of y]
  show ?thesis by linarith
qed

lemma py_round_mono: "x \<le> y \<Longrightarrow> py_round x n \<le> py_round y n"
  by (simp add: py_round_def divide_right_mono round_half_even_mono)

lemma round2_mono: "x \<le> y \<Longrightarrow> round2 x \<le> round2 y"
  by (simp add: round2_def py_round_mono)

lemma py_round_whole_seconds: "py_round (total_seconds (k * 1000000)) 1 = total_seconds (k * 1000000)"
proof -
  have "total_seconds (k * 1000000) * 10 ^ 1 = of_int (k * 10)"
    by (simp add: total_seconds_def)
  then have "round_half_even (total_seconds (k * 1000000) * 10 ^ 1) = k * 10"
    by (simp only: round_half_even_int)
  then show ?thesis
    by (simp add: py_round_def total_seconds_def)
qed



section \<open>What the segmenter's invariants say of a list of passes\<close>

lemma segmenter_end_view: "map pass_view (segmenter_end m) = map pass_view (all_passes m)"
  by (cases "seg_state m") (simp_all add: segmenter_end_def all_passes_def pass_view_def spec_close_def)

lemma pass_view_close_truncate: "pass_view (spec_close (pass.truncate p)) = pass_view p"
  by (simp add: pass_view_def spec_close_def pass.truncate_def)

lemma view_of_truncated:
  assumes "map (spec_close \<circ> pass.truncate) ps = segmenter_end m"
  shows "map pass_view ps = map pass_view (all_passes m)"
proof -
  have "map pass_view ps = map pass_view (map (spec_close \<circ> pass.truncate) ps)"
    by (simp add: pass_view_close_truncate)
  with assms show ?thesis by (simp add: segmenter_end_view)
qed

lemma view_ids:
  assumes "map pass_view ps = map pass_view (all_passes (segmenter_run xs))"
  shows "map pass_id ps = [1..seg_counter (segmenter_run xs)]"
    and "seg_counter (segmenter_run xs) = int (length ps)"
proof -
  have "map pass_id ps = map fst (map pass_view ps)"
    by (simp add: pass_view_def comp_def)
  also have "\<dots> = map pass_id (all_passes (segmenter_run xs))"
    by (simp add: assms pass_view_def comp_def)
  finally show ids: "map pass_id ps = [1..seg_counter (segmenter_run xs)]"
    using ids_inv_run[of xs] by (simp add: ids_inv_def)
  from arg_cong[OF ids, of length] ids_inv_run[of xs]
  show "seg_counter (segmenter_run xs) = int (length ps)"
    by (simp add: ids_inv_def)
qed

lemma view_order:
  assumes v: "map pass_view ps = map pass_view (all_passes (segmenter_run xs))"
    and s: "sorted_wrt (<) (map fst xs)"
  shows "sorted_wrt (\<lambda>p q. pass_end p < start q) ps"
    and "\<forall>p \<in> set ps. start p \<le> pass_end p \<and> start p \<in> fst ` set xs \<and> pass_end p \<in> fst ` set xs"
proof -
  let ?R = "\<lambda>(v :: int \<times> datetime \<times> datetime \<times> real) (w :: int \<times> datetime \<times> datetime \<times> real).
              fst (snd (snd v)) < fst (snd w)"
  note inv = times_inv_run[OF s]
  have "sorted_wrt ?R (map pass_view (all_passes (segmenter_run xs)))"
    using inv by (simp add: times_inv_def sorted_wrt_map pass_view_def)
  then have "sorted_wrt ?R (map pass_view ps)" by (simp add: v)
  then show "sorted_wrt (\<lambda>p q. pass_end p < start q) ps"
    by (simp add: sorted_wrt_map pass_view_def)
  show "\<forall>p \<in> set ps. start p \<le> pass_end p \<and> start p \<in> fst ` set xs \<and> pass_end p \<in> fst ` set xs"
  proof
    fix p assume "p \<in> set ps"
    then have "pass_view p \<in> set (map pass_view (all_passes (segmenter_run xs)))"
      unfolding v[symmetric] by simp
    then obtain q where q: "q \<in> set (all_passes (segmenter_run xs))" "pass_view p = pass_view q"
      by auto
    with inv have "start q \<le> pass_end q \<and> start q \<in> fst ` set xs \<and> pass_end q \<in> fst ` set xs"
      by (simp add: times_inv_def)
    with q(2) show "start p \<le> pass_end p \<and> start p \<in> fst ` set xs \<and> pass_end p \<in> fst ` set xs"
      by (simp add: pass_view_def)
  qed
qed
lemma order_facts:
  assumes "sorted_wrt (\<lambda>p q. pass_end p < start q) ps"
    and "\<forall>p \<in> set ps. start p \<le> pass_end p"
  shows "sorted_wrt (\<lambda>p q. start p < start q) ps"
    and "\<forall>i. Suc i < length ps \<longrightarrow> pass_end (ps ! i) < start (ps ! Suc i)"
proof -
  show "sorted_wrt (\<lambda>p q. start p < start q) ps"
    by (rule sorted_wrt_mono_rel[OF _ assms(1)]) (use assms(2) in fastforce)
  show "\<forall>i. Suc i < length ps \<longrightarrow> pass_end (ps ! i) < start (ps ! Suc i)"
    using assms(1) by (simp add: sorted_wrt_iff_nth_less)
qed

lemma records_closed:
  assumes v: "map pass_view ps = map pass_view (all_passes (segmenter_run xs))"
    and r: "map ephemeris_key.truncate rs = seg_records (segmenter_run xs)"
  shows "\<forall>r \<in> set rs. \<exists>!p. p \<in> set ps \<and> pass_id p = eph_pass_id r"
proof
  fix r assume "r \<in> set rs"
  then have "ephemeris_key.truncate r \<in> set (seg_records (segmenter_run xs))"
    unfolding r[symmetric] by simp
  with ids_inv_run[of xs]
  have "1 \<le> eph_pass_id (ephemeris_key.truncate r)
        \<and> eph_pass_id (ephemeris_key.truncate r) \<le> seg_counter (segmenter_run xs)"
    by (simp add: ids_inv_def)
  then have "eph_pass_id r \<in> set [1..seg_counter (segmenter_run xs)]"
    by (simp add: ephemeris_key.truncate_def)
  then have "eph_pass_id r \<in> set (map pass_id ps)"
    by (simp only: view_ids(1)[OF v])
  then obtain p where p: "p \<in> set ps" "pass_id p = eph_pass_id r" by auto
  have "distinct (map pass_id ps)"
    by (simp only: view_ids(1)[OF v] distinct_upto)
  then have "inj_on pass_id (set ps)" by (simp add: distinct_map)
  with p show "\<exists>!p. p \<in> set ps \<and> pass_id p = eph_pass_id r"
    unfolding inj_on_def by metis
qed

lemma views1:
  assumes "calculate_and_save_data1 sky resp l1 l2 la lo s e step elev mn = Some (po, eo)"
  shows "map pass_view (po_passes po) =
           map pass_view (all_passes (segmenter_run
             (map (classify id mn) (samples1 sky l1 l2 la lo elev s e step))))"
  by (simp add: calc1_run(1)[OF assms] segmenter_end_view)

lemma views2:
  assumes "calculate_and_save_data2 sky now nid la lo s e step elev mn = Some (po, eo)"
  shows "map pass_view (po_passes2 po) =
           map pass_view (all_passes (segmenter_run
             (map (classify round2 mn) (samples2 sky nid la lo elev s e step))))"
  by (rule view_of_truncated) (rule calc2_run(1)[OF assms])
lemma records_step:
  "map timestamp (seg_records (segmenter_step m x)) =
     map timestamp (seg_records m) @ (if snd (snd x) then [fst x] else [])"
  by (cases x; cases "seg_state m") simp_all

lemma records_run:
  "map timestamp (seg_records (segmenter_run xs)) = map fst (filter (\<lambda>x. snd (snd x)) xs)"
proof (induction xs rule: rev_induct)
  case Nil
  show ?case by (simp add: segmenter_run_Nil segmenter_init_def)
next
  case (snoc x xs)
  then show ?case by (simp only: segmenter_run_snoc records_step) simp
qed

lemma visible_stream:
  "map fst (filter (\<lambda>x. snd (snd x)) (map (classify rnd mn) xs)) =
     map fst (filter (\<lambda>x. mn \<le> alt_degrees (snd x)) xs)"
  by (induction xs) (simp_all add: classify_def)

lemma timestamp_truncate: "map timestamp (map ephemeris_key.truncate rs) = map timestamp rs"
  by (simp add: ephemeris_key.truncate_def)

lemma samples_fold1:
  "foldl (iteration1 sky sat obs mn) st ts =
     foldl (\<lambda>st x. step1 mn (fst x) (snd x) st) st (samples (geometry1 sky sat obs) ts)"
  by (induction ts arbitrary: st) (simp_all add: samples_Cons iteration1_def split: option.splits)

lemma samples_fold2:
  "foldl (iteration2 sky sat obs mn) st ts =
     foldl (\<lambda>st x. step2 mn (fst x) (snd x) st) st (samples (geometry2 sky sat obs) ts)"
  by (induction ts arbitrary: st) (simp_all add: samples_Cons iteration2_def split: option.splits)

lemma view_elev:
  assumes v: "map pass_view ps = map pass_view (all_passes (segmenter_run xs))"
    and s: "sorted_wrt (<) (map fst xs)"
  shows "\<forall>p \<in> set ps.
           (\<exists>x \<in> set xs. start p \<le> fst x \<and> fst x \<le> pass_end p \<and> snd (snd x)
              \<and> max_elevation p = fst (snd x)) \<and>
           (\<forall>x \<in> set xs. start p \<le> fst x \<and> fst x \<le> pass_end p \<longrightarrow>
              snd (snd x) \<and> fst (snd x) \<le> max_elevation p)"
proof
  fix p assume "p \<in> set ps"
  then have "pass_view p \<in> set (map pass_view (all_passes (segmenter_run xs)))"
    unfolding v[symmetric] by simp
  then obtain q where q: "q \<in> set (all_passes (segmenter_run xs))" "pass_view p = pass_view q"
    by auto
  from q(2) have eq: "start p = start q" "pass_end p = pass_end q" "max_elevation p = max_elevation q"
    by (simp_all add: pass_view_def)
  from elev_inv_run[OF s] q(1)
  have a: "\<exists>(t, el, v) \<in> set xs. start q \<le> t \<and> t \<le> pass_end q \<and> max_elevation q = el"
    and b: "\<forall>(t, el, v) \<in> set xs. start q \<le> t \<and> t \<le> pass_end q \<longrightarrow> v \<and> el \<le> max_elevation q"
    by (simp_all add: elev_inv_def)
  from b have b': "\<forall>x \<in> set xs. start q \<le> fst x \<and> fst x \<le> pass_end q \<longrightarrow>
              snd (snd x) \<and> fst (snd x) \<le> max_elevation q"
    by fastforce
  from a obtain x where x: "x \<in> set xs" "start q \<le> fst x" "fst x \<le> pass_end q"
    "max_elevation q = fst (snd x)"
    by fastforce
  with b' have "snd (snd x)" by blast
  with x b' show "(\<exists>x \<in> set xs. start p \<le> fst x \<and> fst x \<le> pass_end p \<and> snd (snd x)
              \<and> max_elevation p = fst (snd x)) \<and>
           (\<forall>x \<in> set xs. start p \<le> fst x \<and> fst x \<le> pass_end p \<longrightarrow>
              snd (snd x) \<and> fst (snd x) \<le> max_elevation p)"
    unfolding eq by blast
qed

lemma stream1_sorted:
  "sorted_wrt (<) (map fst (map (classify rnd mn) (samples1 sky l1 l2 la lo elev s e dt)))"
  by (simp only: classify_fst samples1_sorted)

lemma stream2_sorted:
  "sorted_wrt (<) (map fst (map (classify rnd mn) (samples2 sky nid la lo elev s e dt)))"
  by (simp only: classify_fst samples2_sorted)

subsection \<open>Visible windows and the passes that cover them\<close>

lemma view_join:
  assumes v: "map pass_view ps = map pass_view (all_passes (segmenter_run xs))"
    and s: "sorted_wrt (<) (map fst xs)"
    and x: "x \<in> set xs" and y: "y \<in> set xs" and le: "fst x \<le> fst y"
    and w: "\<forall>z \<in> set xs. fst x \<le> fst z \<and> fst z \<le> fst y \<longrightarrow> snd (snd z)"
  shows "\<exists>!p. p \<in> set ps \<and> start p \<le> fst x \<and> fst y \<le> pass_end p"
proof -
  from join_inv_run[OF s] x y le w have "covered (segmenter_run xs) (fst x) (fst y)"
    by (simp add: join_inv_def)
  then obtain q where q: "q \<in> set (all_passes (segmenter_run xs))" "start q \<le> fst x"
    "fst y \<le> pass_end q"
    by (auto simp: covered_def)
  then have "pass_view q \<in> set (map pass_view ps)"
    unfolding v by simp
  then obtain p where p: "p \<in> set ps" "pass_view p = pass_view q" by auto
  with q have ex: "p \<in> set ps \<and> start p \<le> fst x \<and> fst y \<le> pass_end p"
    by (simp add: pass_view_def)
  note o = view_order(1)[OF v s]
  have uniq: "p1 = p2"
    if "p1 \<in> set ps" "start p1 \<le> fst x" "fst y \<le> pass_end p1"
       "p2 \<in> set ps" "start p2 \<le> fst x" "fst y \<le> pass_end p2" for p1 p2
  proof -
    from that(1) obtain i where i: "i < length ps" "ps ! i = p1" by (auto simp: in_set_conv_nth)
    from that(4) obtain j where j: "j < length ps" "ps ! j = p2" by (auto simp: in_set_conv_nth)
    have "\<not> i < j"
    proof
      assume "i < j"
      with o i j have "pass_end p1 < start p2" by (auto simp: sorted_wrt_iff_nth_less)
      with that le show False by linarith
    qed
    moreover have "\<not> j < i"
    proof
      assume "j < i"
      with o i j have "pass_end p2 < start p1" by (auto simp: sorted_wrt_iff_nth_less)
      with that le show False by linarith
    qed
    ultimately have "i = j" by linarith
    with i j show ?thesis by simp
  qed
  from ex uniq show ?thesis by blast
qed

lemma window_single_pass:
  assumes v: "map pass_view ps =
      map pass_view (all_passes (segmenter_run (map (classify rnd mn) (samples geometry ts))))"
    and s: "sorted_wrt (<) ts"
    and a: "a \<in> set ts" "visible_at geometry mn a"
    and b: "b \<in> set ts" "visible_at geometry mn b"
    and le: "a \<le> b"
    and w: "\<forall>t \<in> set ts. a \<le> t \<and> t \<le> b \<longrightarrow> geometry t = None \<or> visible_at geometry mn t"
  shows "\<exists>!p. p \<in> set ps \<and> start p \<le> a \<and> b \<le> pass_end p"
proof -
  let ?xs = "map (classify rnd mn) (samples geometry ts)"
  have srt: "sorted_wrt (<) (map fst ?xs)"
    using samples_sorted[OF s] by (simp only: classify_fst)
  from a obtain ga where ga: "geometry a = Some ga"
    by (auto simp: visible_at_def split: option.splits)
  from b obtain gb where gb: "geometry b = Some gb"
    by (auto simp: visible_at_def split: option.splits)
  from a(1) ga have xa: "classify rnd mn (a, ga) \<in> set ?xs"
    by (simp add: samples_set)
  from b(1) gb have xb: "classify rnd mn (b, gb) \<in> set ?xs"
    by (simp add: samples_set)
  have win: "\<forall>z \<in> set ?xs. fst (classify rnd mn (a, ga)) \<le> fst z
      \<and> fst z \<le> fst (classify rnd mn (b, gb)) \<longrightarrow> snd (snd z)"
  proof (intro ballI impI)
    fix z assume z: "z \<in> set ?xs"
      and r: "fst (classify rnd mn (a, ga)) \<le> fst z \<and> fst z \<le> fst (classify rnd mn (b, gb))"
    from z obtain t g where tg: "z = classify rnd mn (t, g)" "(t, g) \<in> set (samples geometry ts)"
      by auto
    then have m: "t \<in> set ts" "geometry t = Some g" by (simp_all add: samples_set)
    from r tg have "a \<le> t \<and> t \<le> b" by (simp add: classify_def)
    with w m have "visible_at geometry mn t" by auto
    with m tg show "snd (snd z)" by (simp add: visible_at_def classify_def)
  qed
  have f: "fst (classify rnd mn (a, ga)) = a" "fst (classify rnd mn (b, gb)) = b"
    by (simp_all add: classify_def)
  from view_join[OF v srt xa xb _ win] le show ?thesis
    by (simp add: f)
qed

lemma visible_times_set:
  "set (map fst (filter (\<lambda>x. mn \<le> alt_degrees (snd x)) (samples geometry ts))) =
     {t \<in> set ts. visible_at geometry mn t}"
proof (intro set_eqI iffI)
  fix t assume "t \<in> set (map fst (filter (\<lambda>x. mn \<le> alt_degrees (snd x)) (samples geometry ts)))"
  then obtain g where "(t, g) \<in> set (samples geometry ts)" "mn \<le> alt_degrees g"
    by auto
  then show "t \<in> {t \<in> set ts. visible_at geometry mn t}"
    by (simp add: samples_set visible_at_def)
next
  fix t assume "t \<in> {t \<in> set ts. visible_at geometry mn t}"
  then obtain g where g: "t \<in> set ts" "geometry t = Some g" "mn \<le> alt_degrees g"
    by (auto simp: visible_at_def split: option.splits)
  then have "(t, g) \<in> set (filter (\<lambda>x. mn \<le> alt_degrees (snd x)) (samples geometry ts))"
    by (simp add: samples_set)
  then show "t \<in> set (map fst (filter (\<lambda>x. mn \<le> alt_degrees (snd x)) (samples geometry ts)))"
    by force
qed

lemma record_times1:
  assumes r: "calculate_and_save_data1 sky resp l1 l2 la lo s e step elev mn = Some (po, eo)"
    and sat: "EarthSatellite sky l1 l2 = Some satellite"
  shows "set (map timestamp (eo_ephemeris eo)) =
     {t \<in> set (sweep_times s e step).
        visible_at (geometry1 sky satellite (latlon sky la lo elev)) mn t}"
proof -
  have "map timestamp (eo_ephemeris eo) =
          map timestamp (map ephemeris_key.truncate (eo_ephemeris eo))"
    by (simp only: timestamp_truncate)
  then have "map timestamp (eo_ephemeris eo) =
        map fst (filter (\<lambda>x. mn \<le> alt_degrees (snd x)) (samples1 sky l1 l2 la lo elev s e step))"
    by (simp only: calc1_run(3)[OF r] records_run visible_stream)
  then show ?thesis
    by (simp only: samples1_def sat option.case visible_times_set)
qed

lemma record_times2:
  assumes r: "calculate_and_save_data2 sky now nid la lo s e step elev mn = Some (po, eo)"
    and sat: "get_tle sky nid = Some satellite"
  shows "set (map timestamp (eo_ephemeris2 eo)) =
     {t \<in> set (sweep_times s e step).
        visible_at (geometry2 sky satellite (latlon sky la lo elev)) mn t}"
proof -
  have "map timestamp (eo_ephemeris2 eo) =
          map timestamp (map ephemeris_key.truncate (eo_ephemeris2 eo))"
    by (simp only: timestamp_truncate)
  then have "map timestamp (eo_ephemeris2 eo) =
        map fst (filter (\<lambda>x. mn \<le> alt_degrees (snd x)) (samples2 sky nid la lo elev s e step))"
    by (simp only: calc2_run(3)[OF r] records_run visible_stream)
  then show ?thesis
    by (simp only: samples2_def sat option.case visible_times_set)
qed

lemma single_pass1:
  assumes r: "calculate_and_save_data1 sky resp l1 l2 la lo s e step elev mn = Some (po, eo)"
    and sat: "EarthSatellite sky l1 l2 = Some satellite"
    and a: "a \<in> set (sweep_times s e step)"
           "visible_at (geometry1 sky satellite (latlon sky la lo elev)) mn a"
    and b: "b \<in> set (sweep_times s e step)"
           "visible_at (geometry1 sky satellite (latlon sky la lo elev)) mn b"
    and le: "a \<le> b"
    and w: "\<forall>t \<in> set (sweep_times s e step). a \<le> t \<and> t \<le> b \<longrightarrow>
              geometry1 sky satellite (latlon sky la lo elev) t = None \<or>
              visible_at (geometry1 sky satellite (latlon sky la lo elev)) mn t"
  shows "\<exists>!p. p \<in> set (po_passes po) \<and> start p \<le> a \<and> b \<le> pass_end p"
proof -
  have v: "map pass_view (po_passes po) =
      map pass_view (all_passes (segmenter_run (map (classify id mn)
        (samples (geometry1 sky satellite (latlon sky la lo elev)) (sweep_times s e step)))))"
    using views1[OF r] by (simp add: samples1_def sat)
  show ?thesis
    by (rule window_single_pass[OF v sweep_times_sorted a b le w])
qed

lemma single_pass2:
  assumes r: "calculate_and_save_data2 sky now nid la lo s e step elev mn = Some (po, eo)"
    and sat: "get_tle sky nid = Some satellite"
    and a: "a \<in> set (sweep_times s e step)"
           "visible_at (geometry2 sky satellite (latlon sky la lo elev)) mn a"
    and b: "b \<in> set (sweep_times s e step)"
           "visible_at (geometry2 sky satellite (latlon sky la lo elev)) mn b"
    and le: "a \<le> b"
    and w: "\<forall>t \<in> set (sweep_times s e step). a \<le> t \<and> t \<le> b \<longrightarrow>
              geometry2 sky satellite (latlon sky la lo elev) t = None \<or>
              visible_at (geometry2 sky satellite (latlon sky la lo elev)) mn t"
  shows "\<exists>!p. p \<in> set (po_passes2 po) \<and> start p \<le> a \<and> b \<le> pass_end p"
proof -
  have v: "map pass_view (po_passes2 po) =
      map pass_view (all_passes (segmenter_run (map (classify round2 mn)
        (samples (geometry2 sky satellite (latlon sky la lo elev)) (sweep_times s e step)))))"
    using views2[OF r] by (simp add: samples2_def sat)
  show ?thesis
    by (rule window_single_pass[OF v sweep_times_sorted a b le w])
qed

section \<open>Durations, maxima and the fields of the ephemeris\<close>

lemma run_closed:
  assumes "sorted_wrt (<) (map fst xs)"
  shows "\<forall>p \<in> set (segmenter_end (segmenter_run xs)).
           duration_sec p = total_seconds (pass_end p - start p)"
proof -
  from times_inv_run[OF assms]
  have "\<forall>p \<in> set (seg_emitted (segmenter_run xs)).
          duration_sec p = total_seconds (pass_end p - start p)"
    by (simp add: times_inv_def)
  then show ?thesis
    by (cases "seg_state (segmenter_run xs)") (auto simp: segmenter_end_def spec_close_def)
qed

lemma step2_durations:
  assumes "\<forall>p \<in> set (passes_data st).
             duration_sec p = py_round (total_seconds (pass_end p - start p)) 1"
  shows "\<forall>p \<in> set (passes_data (step2 mn t g st)).
           duration_sec p = py_round (total_seconds (pass_end p - start p)) 1"
  using assms by (cases "current_pass st") (auto simp: step2_def Let_def close_pass2_def)

lemma fold2_durations:
  "\<forall>p \<in> set (passes_data st).
      duration_sec p = py_round (total_seconds (pass_end p - start p)) 1 \<Longrightarrow>
   \<forall>p \<in> set (passes_data (foldl (\<lambda>st x. step2 mn (fst x) (snd x) st) st xs)).
      duration_sec p = py_round (total_seconds (pass_end p - start p)) 1"
proof (induction xs arbitrary: st)
  case Nil
  then show ?case by simp
next
  case (Cons x xs)
  from Cons.IH[OF step2_durations[OF Cons.prems]] show ?case by simp
qed

lemma calc1_fold:
  assumes "calculate_and_save_data1 sky resp l1 l2 la lo s e step elev mn = Some (po, eo)"
  defines "st \<equiv> foldl (\<lambda>st x. step1 mn (fst x) (snd x) st) init_state
                    (samples1 sky l1 l2 la lo elev s e step)"
  shows "po_passes po = passes_data (last_pass1 st)"
    and "eo_ephemeris eo = ephemeris_data st"
proof -
  from assms(1) obtain sat st' where
    sat: "EarthSatellite sky l1 l2 = Some sat" and
    sw: "sweep1 sky sat (latlon sky la lo elev) mn e step init_state s = Some st'" and
    po: "po_passes po = passes_data (last_pass1 st')"
        "eo_ephemeris eo = ephemeris_data (last_pass1 st')"
    by (auto simp: calculate_and_save_data1_def Let_def split: bind_splits)
  from sweep1_result[OF sw] have "st' = st"
    by (simp add: st_def samples1_def sat samples_fold1)
  with po show "po_passes po = passes_data (last_pass1 st)" "eo_ephemeris eo = ephemeris_data st"
    by (simp_all add: last_pass1_def split: option.splits)
qed

lemma calc2_fold:
  assumes "calculate_and_save_data2 sky now nid la lo s e step elev mn = Some (po, eo)"
  defines "st \<equiv> foldl (\<lambda>st x. step2 mn (fst x) (snd x) st) init_state
                    (samples2 sky nid la lo elev s e step)"
  shows "po_passes2 po = passes_data (last_pass2 st)"
    and "eo_ephemeris2 eo = ephemeris_data st"
proof -
  from assms(1) obtain sat st' where
    sat: "get_tle sky nid = Some sat" and
    sw: "sweep2 sky sat (latlon sky la lo elev) mn e step init_state s = Some st'" and
    po: "po_passes2 po = passes_data (last_pass2 st')"
        "eo_ephemeris2 eo = ephemeris_data (last_pass2 st')"
    by (auto simp: calculate_and_save_data2_def Let_def split: bind_splits)
  from sweep2_result[OF sw] have "st' = st"
    by (simp add: st_def samples2_def sat samples_fold2)
  with po show "po_passes2 po = passes_data (last_pass2 st)" "eo_ephemeris2 eo = ephemeris_data st"
    by (simp_all add: last_pass2_def split: option.splits)
qed

lemma calc2_durations:
  assumes "calculate_and_save_data2 sky now nid la lo s e step elev mn = Some (po, eo)"
  shows "\<forall>p \<in> set (po_passes2 po).
           duration_sec p = py_round (total_seconds (pass_end p - start p)) 1"
proof -
  have i: "\<forall>p \<in> set (passes_data (init_state :: (pass_ev, ephemeris_entry2) sweep_state)).
             duration_sec p = py_round (total_seconds (pass_end p - start p)) 1"
    by (simp add: init_state_def)
  from fold2_durations[OF i] show ?thesis
    unfolding calc2_fold(1)[OF assms]
    by (auto simp: last_pass2_def close_pass2_def split: option.splits)
qed

lemma truncate_round:
  assumes "duration_sec p = py_round (total_seconds (pass_end p - start p)) 1"
  shows "(spec_close (pass.truncate p))
           \<lparr>duration_sec := py_round (duration_sec (spec_close (pass.truncate p))) 1\<rparr> =
         pass.truncate p"
  using assms by (simp add: spec_close_def pass.truncate_def)

lemma calc2_refines:
  assumes r: "calculate_and_save_data2 sky now nid la lo s e step elev mn = Some (po, eo)"
  shows "map pass.truncate (po_passes2 po) =
           map (\<lambda>p. p\<lparr>duration_sec := py_round (duration_sec p) 1\<rparr>)
             (segmenter_end (segmenter_run
                (map (classify round2 mn) (samples2 sky nid la lo elev s e step))))"
proof -
  have "(\<lambda>p. p\<lparr>duration_sec := py_round (duration_sec p) 1\<rparr>) ((spec_close \<circ> pass.truncate) p) =
          pass.truncate p" if "p \<in> set (po_passes2 po)" for p
    unfolding comp_apply using calc2_durations[OF r] that by (intro truncate_round) blast
  then have "map (\<lambda>p. p\<lparr>duration_sec := py_round (duration_sec p) 1\<rparr>)
          (map (spec_close \<circ> pass.truncate) (po_passes2 po)) = map pass.truncate (po_passes2 po)"
    unfolding map_map comp_def[of "\<lambda>p. p\<lparr>duration_sec := py_round (duration_sec p) 1\<rparr>"]
    by (intro map_cong refl) simp
  then show ?thesis
    by (simp only: calc2_run(1)[OF r])
qed

lemma step1_fields:
  "map (\<lambda>r. (timestamp r, geodesic r, relative r)) (ephemeris_data (step1 mn t g st)) =
     map (\<lambda>r. (timestamp r, geodesic r, relative r)) (ephemeris_data st) @
     (if mn \<le> alt_degrees g then
        [(t, \<lparr>lat = py_round (sub_lat g) 6, lon = py_round (sub_lon g) 6,
              height_m = py_round (sub_elev_m g) 2\<rparr>,
             \<lparr>elevation = py_round (alt_degrees g) 3, azimuth = py_round (az_degrees g) 3,
              distance_km = py_round (dist_km g) 3\<rparr>)]
      else [])"
  by (cases "current_pass st") (simp_all add: step1_def Let_def)

lemma step2_fields:
  "map (\<lambda>r. (timestamp r, geodetic r, topocentric r)) (ephemeris_data (step2 mn t g st)) =
     map (\<lambda>r. (timestamp r, geodetic r, topocentric r)) (ephemeris_data st) @
     (if mn \<le> alt_degrees g then
        [(t, \<lparr>latitude = py_round (sub_lat g) 6, longitude = py_round (sub_lon g) 6,
              altitude_km = py_round (sub_elev_m g / 1000) 3\<rparr>,
             \<lparr>elevation = py_round (alt_degrees g) 3, azimuth = py_round (az_degrees g) 3,
              distance_km = py_round (dist_km g) 3\<rparr>)]
      else [])"
  by (cases "current_pass st") (simp_all add: step2_def Let_def)

lemma fold1_fields:
  "map (\<lambda>r. (timestamp r, geodesic r, relative r))
     (ephemeris_data (foldl (\<lambda>st x. step1 mn (fst x) (snd x) st) st xs)) =
   map (\<lambda>r. (timestamp r, geodesic r, relative r)) (ephemeris_data st) @
   map (\<lambda>x. (fst x,
              \<lparr>lat = py_round (sub_lat (snd x)) 6, lon = py_round (sub_lon (snd x)) 6,
               height_m = py_round (sub_elev_m (snd x)) 2\<rparr>,
              \<lparr>elevation = py_round (alt_degrees (snd x)) 3,
               azimuth = py_round (az_degrees (snd x)) 3,
               distance_km = py_round (dist_km (snd x)) 3\<rparr>))
     (filter (\<lambda>x. mn \<le> alt_degrees (snd x)) xs)"
proof (induction xs arbitrary: st)
  case Nil
  show ?case by simp
next
  case (Cons x xs)
  show ?case
    by (simp only: foldl_Cons Cons.IH step1_fields) simp
qed

lemma fold2_fields:
  "map (\<lambda>r. (timestamp r, geodetic r, topocentric r))
     (ephemeris_data (foldl (\<lambda>st x. step2 mn (fst x) (snd x) st) st xs)) =
   map (\<lambda>r. (timestamp r, geodetic r, topocentric r)) (ephemeris_data st) @
   map (\<lambda>x. (fst x,
              \<lparr>latitude = py_round (sub_lat (snd x)) 6, longitude = py_round (sub_lon (snd x)) 6,
               altitude_km = py_round (sub_elev_m (snd x) / 1000) 3\<rparr>,
              \<lparr>elevation = py_round (alt_degrees (snd x)) 3,
               azimuth = py_round (az_degrees (snd x)) 3,
               distance_km = py_round (dist_km (snd x)) 3\<rparr>))
     (filter (\<lambda>x. mn \<le> alt_degrees (snd x)) xs)"
proof (induction xs arbitrary: st)
  case Nil
  show ?case by simp
next
  case (Cons x xs)
  show ?case
    by (simp only: foldl_Cons Cons.IH step2_fields) simp
qed

lemma window_max:
  assumes v: "map pass_view ps =
      map pass_view (all_passes (segmenter_run (map (classify rnd mn) xs)))"
    and s: "sorted_wrt (<) (map fst xs)"
    and m: "\<And>a b. a \<le> b \<Longrightarrow> rnd a \<le> rnd b"
    and p: "p \<in> set ps"
  shows "window_elevations xs p \<noteq> [] \<and>
         max_elevation p = rnd (Max (set (window_elevations xs p)))"
proof -
  let ?W = "set (window_elevations xs p)"
  have srt: "sorted_wrt (<) (map fst (map (classify rnd mn) xs))"
    using s by (simp only: classify_fst)
  from view_elev[OF v srt] p
  have ex: "\<exists>x \<in> set (map (classify rnd mn) xs). start p \<le> fst x \<and> fst x \<le> pass_end p
              \<and> max_elevation p = fst (snd x)"
    and ub: "\<forall>x \<in> set (map (classify rnd mn) xs). start p \<le> fst x \<and> fst x \<le> pass_end p \<longrightarrow>
              fst (snd x) \<le> max_elevation p"
    by blast+
  from ex obtain y where y: "y \<in> set xs" "start p \<le> fst y" "fst y \<le> pass_end p"
    "max_elevation p = rnd (alt_degrees (snd y))"
    by (auto simp: classify_def)
  then have yW: "alt_degrees (snd y) \<in> ?W"
    by (force simp: window_elevations_def)
  then have ne: "window_elevations xs p \<noteq> []" by auto
  have fin: "finite ?W" by simp
  have neW: "?W \<noteq> {}" using yW by auto
  from Max_in[OF fin neW] obtain z where z: "z \<in> set xs" "start p \<le> fst z" "fst z \<le> pass_end p"
    "alt_degrees (snd z) = Max ?W"
    by (auto simp: window_elevations_def)
  from ub z have "rnd (Max ?W) \<le> max_elevation p"
    by (force simp: classify_def)
  moreover from Max_ge[OF fin yW] have "max_elevation p \<le> rnd (Max ?W)"
    unfolding y(4) by (rule m)
  ultimately show ?thesis using ne by simp
qed

section \<open>The synthetic run, evaluated\<close>

lemma demo_times: "sweep_times 0 5000000 1 = [0, 1000000, 2000000, 3000000, 4000000, 5000000]"
  by (simp add: sweep_times.simps timedelta_def)

lemma demo_geometry1:
  "geometry1 demo_sky demo_satellite (latlon demo_sky la lo el) t =
     (if t = 2000000 then None
      else Some \<lparr>alt_degrees = demo_elevation t, az_degrees = 1000000, dist_km = 1000,
                 sub_lat = 51.5, sub_lon = 37.25, sub_elev_m = 420000\<rparr>)"
  by (simp add: geometry1_def demo_sky_def demo_satellite_def timedelta_float_def
        round_half_even_def)

lemma demo_geometry2:
  "geometry2 demo_sky demo_satellite (latlon demo_sky la lo el) t =
     (if t = 2000000 then None
      else Some \<lparr>alt_degrees = demo_elevation t, az_degrees = 0, dist_km = 1000,
                 sub_lat = 51.5, sub_lon = 37.25, sub_elev_m = 420000\<rparr>)"
  by (simp add: geometry2_def demo_sky_def demo_satellite_def)

lemma demo_sky_sel:
  "EarthSatellite demo_sky l1 l2 = Some demo_satellite"
  "get_tle demo_sky nid = Some demo_satellite"
  "satnum demo_satellite = 25544"
  "sat_name demo_satellite = ''ISS (ZARYA)''"
  by (simp_all add: demo_sky_def demo_satellite_def get_tle_def)

lemma demo_sweep1:
  "foldl (iteration1 demo_sky demo_satellite (latlon demo_sky la lo el) 10) init_state
     (sweep_times 0 5000000 1) =
   \<lparr>passes_data = [hd demo_passes1], ephemeris_data = demo_ephemeris1, pass_counter = 2,
    current_pass = Some ((demo_passes1 ! 1)\<lparr>duration_sec := 0\<rparr>)\<rparr>"
  by (simp add: demo_times iteration1_def demo_geometry1 step1_def init_state_def demo_elevation_def
        Let_def close_pass1_def total_seconds_def py_round_def round_half_even_def
        demo_passes1_def demo_ephemeris1_def demo_entry1_def)

lemma demo_sweep2:
  "foldl (iteration2 demo_sky demo_satellite (latlon demo_sky la lo el) 10) init_state
     (sweep_times 0 5000000 1) =
   \<lparr>passes_data = [hd demo_passes2], ephemeris_data = demo_ephemeris2, pass_counter = 2,
    current_pass = Some ((demo_passes2 ! 1)\<lparr>duration_sec := 0\<rparr>)\<rparr>"
  by (simp add: demo_times iteration2_def demo_geometry2 step2_def init_state_def demo_elevation_def
        Let_def close_pass2_def total_seconds_def py_round_def round_half_even_def
        demo_passes2_def demo_ephemeris2_def demo_entry2_def)

lemma str_nat_25544: "str_int 25544 = ''25544''"
  by (simp add: str_int_def str_nat.simps digit_char_def)

lemma demo_run1:
  "calculate_and_save_data1 demo_sky None l1 l2 55.75 37.5 0 5000000 1 150 10 =
     Some (demo_output1 ''SAT-25544'')"
  by (simp add: calculate_and_save_data1_def Let_def demo_sky_sel sweep1_total demo_sweep1
        last_pass1_def close_pass1_def total_seconds_def get_satellite_name_def str_nat_25544
        demo_output1_def demo_metadata1_def demo_passes1_def)

lemma demo_run2:
  "calculate_and_save_data2 demo_sky now 25544 55.75 37.5 0 5000000 1 150 10 =
     Some (demo_output2 now)"
  by (simp add: calculate_and_save_data2_def Let_def demo_sky_sel sweep2_total demo_sweep2
        last_pass2_def close_pass2_def total_seconds_def tle_source_def str_nat_25544
        py_round_def round_half_even_def strip_def isspace_def
        demo_output2_def demo_metadata2_def demo_passes2_def)

lemma short_times: "sweep_times 3000000 3000000 1 = [3000000]" "sweep_times 5000000 5000000 1 = [5000000]"
  by (simp_all add: sweep_times.simps timedelta_def)

lemma demo_run1_any:
  "calculate_and_save_data1 demo_sky resp l1 l2 55.75 37.5 0 5000000 1 150 10 =
     Some (demo_output1 (get_satellite_name resp 25544))"
  by (simp add: calculate_and_save_data1_def Let_def demo_sky_sel sweep1_total demo_sweep1
        last_pass1_def close_pass1_def total_seconds_def
        demo_output1_def demo_metadata1_def demo_passes1_def)

lemma demo_names:
  "get_satellite_name None 25544 = ''SAT-25544''"
  "get_satellite_name (Some demo_response) 25544 = ''ISS''"
  by (simp_all add: get_satellite_name_def str_nat_25544 demo_response_def split_first_def
        strip_def isspace_def)

section \<open>The claims\<close>

text \<open>C6. In every passes report either program produces, the passes are listed in the order
  of their start times, consecutive passes do not overlap (the end of each lies strictly
  before the start of the next), and no pass ends before it starts.\<close>

theorem passes_ordered_and_disjoint:
  "(calculate_and_save_data1 sky1 resp l1 l2 la1 lo1 s1 e1 dt1 elev1 mn1 = Some (po1, eo1) \<longrightarrow>
      sorted_wrt (\<lambda>p q. start p < start q) (po_passes po1) \<and>
      (\<forall>i. Suc i < length (po_passes po1) \<longrightarrow>
         pass_end (po_passes po1 ! i) < start (po_passes po1 ! Suc i)) \<and>
      (\<forall>p \<in> set (po_passes po1). start p \<le> pass_end p)) \<and>
   (calculate_and_save_data2 sky2 now nid la2 lo2 s2 e2 dt2 elev2 mn2 = Some (po2, eo2) \<longrightarrow>
      sorted_wrt (\<lambda>p q. start p < start q) (po_passes2 po2) \<and>
      (\<forall>i. Suc i < length (po_passes2 po2) \<longrightarrow>
         pass_end (po_passes2 po2 ! i) < start (po_passes2 po2 ! Suc i)) \<and>
      (\<forall>p \<in> set (po_passes2 po2). start p \<le> pass_end p))"
proof (intro conjI impI)
  assume r: "calculate_and_save_data1 sky1 resp l1 l2 la1 lo1 s1 e1 dt1 elev1 mn1 = Some (po1, eo1)"
  have s: "sorted_wrt (<) (map fst (map (classify id mn1) (samples1 sky1 l1 l2 la1 lo1 elev1 s1 e1 dt1)))"
    by (simp only: classify_fst samples1_sorted)
  note o = view_order[OF views1[OF r] s]
  from o(2) have le: "\<forall>p \<in> set (po_passes po1). start p \<le> pass_end p" by blast
  from le show "\<forall>p \<in> set (po_passes po1). start p \<le> pass_end p" .
  from order_facts[OF o(1) le]
  show "sorted_wrt (\<lambda>p q. start p < start q) (po_passes po1)"
    "\<forall>i. Suc i < length (po_passes po1) \<longrightarrow>
         pass_end (po_passes po1 ! i) < start (po_passes po1 ! Suc i)"
    by blast+
next
  assume r: "calculate_and_save_data2 sky2 now nid la2 lo2 s2 e2 dt2 elev2 mn2 = Some (po2, eo2)"
  have s: "sorted_wrt (<) (map fst (map (classify round2 mn2) (samples2 sky2 nid la2 lo2 elev2 s2 e2 dt2)))"
    by (simp only: classify_fst samples2_sorted)
  note o = view_order[OF views2[OF r] s]
  from o(2) have le: "\<forall>p \<in> set (po_passes2 po2). start p \<le> pass_end p" by blast
  from le show "\<forall>p \<in> set (po_passes2 po2). start p \<le> pass_end p" .
  from order_facts[OF o(1) le]
  show "sorted_wrt (\<lambda>p q. start p < start q) (po_passes2 po2)"
    "\<forall>i. Suc i < length (po_passes2 po2) \<longrightarrow>
         pass_end (po_passes2 po2 ! i) < start (po_passes2 po2 ! Suc i)"
    by blast+
qed

theorem passes_ordered_and_disjoint_witness:
  "calculate_and_save_data1 demo_sky None [] [] 55.75 37.5 0 5000000 1 150 10 =
     Some (demo_output1 ''SAT-25544'') \<and>
   calculate_and_save_data2 demo_sky 77 25544 55.75 37.5 0 5000000 1 150 10 =
     Some (demo_output2 77) \<and>
   pass_end (demo_passes1 ! 0) < start (demo_passes1 ! Suc 0) \<and>
   start (demo_passes1 ! 0) \<le> pass_end (demo_passes1 ! 0) \<and>
   pass_end (demo_passes2 ! 0) < start (demo_passes2 ! Suc 0) \<and>
   start (demo_passes2 ! 0) \<le> pass_end (demo_passes2 ! 0)"
proof -
  have r1: "calculate_and_save_data1 demo_sky None [] [] 55.75 37.5 0 5000000 1 150 10 =
      Some (\<lparr>po_metadata = demo_metadata1 ''SAT-25544'', po_total_passes = 2,
               po_passes = demo_passes1\<rparr>,
            \<lparr>eo_metadata = demo_metadata1 ''SAT-25544'', eo_ephemeris = demo_ephemeris1\<rparr>)"
    using demo_run1[of "[]" "[]"] by (simp add: demo_output1_def)
  have r2: "calculate_and_save_data2 demo_sky 77 25544 55.75 37.5 0 5000000 1 150 10 =
      Some (\<lparr>po_metadata2 = demo_metadata2 77,
               po_statistics = \<lparr>total_passes = 2, visible_time_total = 2\<rparr>,
               po_passes2 = demo_passes2\<rparr>,
            \<lparr>eo_metadata2 = demo_metadata2 77, eo_ephemeris2 = demo_ephemeris2\<rparr>)"
    using demo_run2[of 77] by (simp add: demo_output2_def)
  have l: "length demo_passes1 = 2" "length demo_passes2 = 2"
    "demo_passes1 ! 0 \<in> set demo_passes1" "demo_passes2 ! 0 \<in> set demo_passes2"
    by (simp_all add: demo_passes1_def demo_passes2_def)
  from passes_ordered_and_disjoint[THEN conjunct1, rule_format, OF r1]
    passes_ordered_and_disjoint[THEN conjunct2, rule_format, OF r2] l
  show ?thesis
    using demo_run1[of "[]" "[]"] demo_run2[of 77] by simp
qed

text \<open>C7. In every passes report either program produces, the identifiers of the listed
  passes are 1, 2, ... up to the reported total, in the order of the list, which is the
  order of the start times; the reported total is the final value of the pass counter and
  equals the number of passes listed.\<close>

theorem pass_ids_count_from_one:
  "(calculate_and_save_data1 sky1 resp l1 l2 la1 lo1 s1 e1 dt1 elev1 mn1 = Some (po1, eo1) \<longrightarrow>
      map pass_id (po_passes po1) = [1..po_total_passes po1] \<and>
      po_total_passes po1 = int (length (po_passes po1)) \<and>
      sorted_wrt (\<lambda>p q. start p < start q) (po_passes po1)) \<and>
   (calculate_and_save_data2 sky2 now nid la2 lo2 s2 e2 dt2 elev2 mn2 = Some (po2, eo2) \<longrightarrow>
      map pass_id (po_passes2 po2) = [1..total_passes (po_statistics po2)] \<and>
      total_passes (po_statistics po2) = int (length (po_passes2 po2)) \<and>
      sorted_wrt (\<lambda>p q. start p < start q) (po_passes2 po2))"
proof (intro conjI impI)
  assume r: "calculate_and_save_data1 sky1 resp l1 l2 la1 lo1 s1 e1 dt1 elev1 mn1 = Some (po1, eo1)"
  have s: "sorted_wrt (<) (map fst (map (classify id mn1) (samples1 sky1 l1 l2 la1 lo1 elev1 s1 e1 dt1)))"
    by (simp only: classify_fst samples1_sorted)
  from view_ids[OF views1[OF r]] calc1_run(2)[OF r]
  show "map pass_id (po_passes po1) = [1..po_total_passes po1]"
    "po_total_passes po1 = int (length (po_passes po1))"
    by simp_all
  note o = view_order[OF views1[OF r] s]
  from o(2) have "\<forall>p \<in> set (po_passes po1). start p \<le> pass_end p" by blast
  from order_facts(1)[OF o(1) this]
  show "sorted_wrt (\<lambda>p q. start p < start q) (po_passes po1)" .
next
  assume r: "calculate_and_save_data2 sky2 now nid la2 lo2 s2 e2 dt2 elev2 mn2 = Some (po2, eo2)"
  have s: "sorted_wrt (<) (map fst (map (classify round2 mn2) (samples2 sky2 nid la2 lo2 elev2 s2 e2 dt2)))"
    by (simp only: classify_fst samples2_sorted)
  from view_ids[OF views2[OF r]] calc2_run(2)[OF r]
  show "map pass_id (po_passes2 po2) = [1..total_passes (po_statistics po2)]"
    "total_passes (po_statistics po2) = int (length (po_passes2 po2))"
    by simp_all
  note o = view_order[OF views2[OF r] s]
  from o(2) have "\<forall>p \<in> set (po_passes2 po2). start p \<le> pass_end p" by blast
  from order_facts(1)[OF o(1) this]
  show "sorted_wrt (\<lambda>p q. start p < start q) (po_passes2 po2)" .
qed

theorem pass_ids_count_from_one_witness:
  "calculate_and_save_data1 demo_sky None [] [] 55.75 37.5 0 5000000 1 150 10 =
     Some (demo_output1 ''SAT-25544'') \<and>
   calculate_and_save_data2 demo_sky 77 25544 55.75 37.5 0 5000000 1 150 10 =
     Some (demo_output2 77) \<and>
   map pass_id demo_passes1 = [1, 2] \<and> po_total_passes (fst (demo_output1 ''SAT-25544'')) = 2 \<and>
   map pass_id demo_passes2 = [1, 2] \<and> total_passes (po_statistics (fst (demo_output2 77))) = 2"
proof -
  have r1: "calculate_and_save_data1 demo_sky None [] [] 55.75 37.5 0 5000000 1 150 10 =
      Some (\<lparr>po_metadata = demo_metadata1 ''SAT-25544'', po_total_passes = 2,
               po_passes = demo_passes1\<rparr>,
            \<lparr>eo_metadata = demo_metadata1 ''SAT-25544'', eo_ephemeris = demo_ephemeris1\<rparr>)"
    using demo_run1[of "[]" "[]"] by (simp add: demo_output1_def)
  have r2: "calculate_and_save_data2 demo_sky 77 25544 55.75 37.5 0 5000000 1 150 10 =
      Some (\<lparr>po_metadata2 = demo_metadata2 77,
               po_statistics = \<lparr>total_passes = 2, visible_time_total = 2\<rparr>,
               po_passes2 = demo_passes2\<rparr>,
            \<lparr>eo_metadata2 = demo_metadata2 77, eo_ephemeris2 = demo_ephemeris2\<rparr>)"
    using demo_run2[of 77] by (simp add: demo_output2_def)
  have u: "[1..2] = [1, 2 :: int]" by (simp add: upto.simps)
  from pass_ids_count_from_one[THEN conjunct1, rule_format, OF r1]
    pass_ids_count_from_one[THEN conjunct2, rule_format, OF r2] u
  show ?thesis
    using demo_run1[of "[]" "[]"] demo_run2[of 77]
    by (simp add: demo_output1_def demo_output2_def)
qed

text \<open>C8. Every record of an ephemeris report carries the identifier of exactly one pass of
  the passes report written with it; the records of a pass still open when the sweep ends
  are no exception, as that pass is appended after the loop.\<close>

theorem ephemeris_records_have_one_pass:
  "(calculate_and_save_data1 sky1 resp l1 l2 la1 lo1 s1 e1 dt1 elev1 mn1 = Some (po1, eo1) \<longrightarrow>
      (\<forall>r \<in> set (eo_ephemeris eo1). \<exists>!p. p \<in> set (po_passes po1) \<and> pass_id p = eph_pass_id r)) \<and>
   (calculate_and_save_data2 sky2 now nid la2 lo2 s2 e2 dt2 elev2 mn2 = Some (po2, eo2) \<longrightarrow>
      (\<forall>r \<in> set (eo_ephemeris2 eo2). \<exists>!p. p \<in> set (po_passes2 po2) \<and> pass_id p = eph_pass_id r))"
proof (intro conjI impI)
  assume r: "calculate_and_save_data1 sky1 resp l1 l2 la1 lo1 s1 e1 dt1 elev1 mn1 = Some (po1, eo1)"
  show "\<forall>r \<in> set (eo_ephemeris eo1). \<exists>!p. p \<in> set (po_passes po1) \<and> pass_id p = eph_pass_id r"
    by (rule records_closed[OF views1[OF r] calc1_run(3)[OF r]])
next
  assume r: "calculate_and_save_data2 sky2 now nid la2 lo2 s2 e2 dt2 elev2 mn2 = Some (po2, eo2)"
  show "\<forall>r \<in> set (eo_ephemeris2 eo2). \<exists>!p. p \<in> set (po_passes2 po2) \<and> pass_id p = eph_pass_id r"
    by (rule records_closed[OF views2[OF r] calc2_run(3)[OF r]])
qed

theorem ephemeris_records_have_one_pass_witness:
  "calculate_and_save_data1 demo_sky None [] [] 55.75 37.5 0 5000000 1 150 10 =
     Some (demo_output1 ''SAT-25544'') \<and>
   calculate_and_save_data2 demo_sky 77 25544 55.75 37.5 0 5000000 1 150 10 =
     Some (demo_output2 77) \<and>
   (\<exists>!p. p \<in> set demo_passes1 \<and> pass_id p = eph_pass_id (demo_entry1 2 5000000 20)) \<and>
   (\<exists>!p. p \<in> set demo_passes2 \<and> pass_id p = eph_pass_id (demo_entry2 2 5000000 20))"
proof -
  have r1: "calculate_and_save_data1 demo_sky None [] [] 55.75 37.5 0 5000000 1 150 10 =
      Some (\<lparr>po_metadata = demo_metadata1 ''SAT-25544'', po_total_passes = 2,
               po_passes = demo_passes1\<rparr>,
            \<lparr>eo_metadata = demo_metadata1 ''SAT-25544'', eo_ephemeris = demo_ephemeris1\<rparr>)"
    using demo_run1[of "[]" "[]"] by (simp add: demo_output1_def)
  have r2: "calculate_and_save_data2 demo_sky 77 25544 55.75 37.5 0 5000000 1 150 10 =
      Some (\<lparr>po_metadata2 = demo_metadata2 77,
               po_statistics = \<lparr>total_passes = 2, visible_time_total = 2\<rparr>,
               po_passes2 = demo_passes2\<rparr>,
            \<lparr>eo_metadata2 = demo_metadata2 77, eo_ephemeris2 = demo_ephemeris2\<rparr>)"
    using demo_run2[of 77] by (simp add: demo_output2_def)
  have m: "demo_entry1 2 5000000 20 \<in> set (eo_ephemeris
        \<lparr>eo_metadata = demo_metadata1 ''SAT-25544'', eo_ephemeris = demo_ephemeris1\<rparr>)"
    "demo_entry2 2 5000000 20 \<in> set (eo_ephemeris2
        \<lparr>eo_metadata2 = demo_metadata2 77, eo_ephemeris2 = demo_ephemeris2\<rparr>)"
    by (simp_all add: demo_ephemeris1_def demo_ephemeris2_def)
  from ephemeris_records_have_one_pass[THEN conjunct1, rule_format, OF r1 m(1)]
    ephemeris_records_have_one_pass[THEN conjunct2, rule_format, OF r2 m(2)]
  show ?thesis
    using demo_run1[of "[]" "[]"] demo_run2[of 77] by simp
qed

text \<open>C9. The threshold is inclusive: in a run of either program, the instants that get an
  ephemeris record (the instants classified visible) are exactly the instants of the
  computed samples whose elevation is greater than or equal to the minimum elevation, in
  the order of the sweep. A sample whose elevation equals the threshold is among them.\<close>

theorem visible_iff_elevation_at_least_threshold:
  "(calculate_and_save_data1 sky1 resp l1 l2 la1 lo1 s1 e1 dt1 elev1 mn1 = Some (po1, eo1) \<longrightarrow>
      map timestamp (eo_ephemeris eo1) =
        map fst (filter (\<lambda>x. mn1 \<le> alt_degrees (snd x))
                   (samples1 sky1 l1 l2 la1 lo1 elev1 s1 e1 dt1))) \<and>
   (calculate_and_save_data2 sky2 now nid la2 lo2 s2 e2 dt2 elev2 mn2 = Some (po2, eo2) \<longrightarrow>
      map timestamp (eo_ephemeris2 eo2) =
        map fst (filter (\<lambda>x. mn2 \<le> alt_degrees (snd x))
                   (samples2 sky2 nid la2 lo2 elev2 s2 e2 dt2)))"
proof (intro conjI impI)
  assume r: "calculate_and_save_data1 sky1 resp l1 l2 la1 lo1 s1 e1 dt1 elev1 mn1 = Some (po1, eo1)"
  have "map timestamp (eo_ephemeris eo1) =
          map timestamp (map ephemeris_key.truncate (eo_ephemeris eo1))"
    by (simp only: timestamp_truncate)
  then show "map timestamp (eo_ephemeris eo1) =
        map fst (filter (\<lambda>x. mn1 \<le> alt_degrees (snd x))
                   (samples1 sky1 l1 l2 la1 lo1 elev1 s1 e1 dt1))"
    by (simp only: calc1_run(3)[OF r] records_run visible_stream)
next
  assume r: "calculate_and_save_data2 sky2 now nid la2 lo2 s2 e2 dt2 elev2 mn2 = Some (po2, eo2)"
  have "map timestamp (eo_ephemeris2 eo2) =
          map timestamp (map ephemeris_key.truncate (eo_ephemeris2 eo2))"
    by (simp only: timestamp_truncate)
  then show "map timestamp (eo_ephemeris2 eo2) =
        map fst (filter (\<lambda>x. mn2 \<le> alt_degrees (snd x))
                   (samples2 sky2 nid la2 lo2 elev2 s2 e2 dt2))"
    by (simp only: calc2_run(3)[OF r] records_run visible_stream)
qed

theorem visible_iff_elevation_at_least_threshold_witness:
  "calculate_and_save_data1 demo_sky None [] [] 55.75 37.5 0 5000000 1 150 10 =
     Some (demo_output1 ''SAT-25544'') \<and>
   calculate_and_save_data2 demo_sky 77 25544 55.75 37.5 0 5000000 1 150 10 =
     Some (demo_output2 77) \<and>
   demo_elevation 1000000 = 10 \<and>
   map timestamp demo_ephemeris1 = [1000000, 3000000, 5000000] \<and>
   map timestamp demo_ephemeris2 = [1000000, 3000000, 5000000] \<and>
   map fst (filter (\<lambda>x. 10 \<le> alt_degrees (snd x))
              (samples1 demo_sky [] [] 55.75 37.5 150 0 5000000 1)) =
     [1000000, 3000000, 5000000]"
proof -
  have r1: "calculate_and_save_data1 demo_sky None [] [] 55.75 37.5 0 5000000 1 150 10 =
      Some (\<lparr>po_metadata = demo_metadata1 ''SAT-25544'', po_total_passes = 2,
               po_passes = demo_passes1\<rparr>,
            \<lparr>eo_metadata = demo_metadata1 ''SAT-25544'', eo_ephemeris = demo_ephemeris1\<rparr>)"
    using demo_run1[of "[]" "[]"] by (simp add: demo_output1_def)
  have r2: "calculate_and_save_data2 demo_sky 77 25544 55.75 37.5 0 5000000 1 150 10 =
      Some (\<lparr>po_metadata2 = demo_metadata2 77,
               po_statistics = \<lparr>total_passes = 2, visible_time_total = 2\<rparr>,
               po_passes2 = demo_passes2\<rparr>,
            \<lparr>eo_metadata2 = demo_metadata2 77, eo_ephemeris2 = demo_ephemeris2\<rparr>)"
    using demo_run2[of 77] by (simp add: demo_output2_def)
  have t: "map timestamp demo_ephemeris1 = [1000000, 3000000, 5000000]"
    "map timestamp demo_ephemeris2 = [1000000, 3000000, 5000000]"
    "demo_elevation 1000000 = 10"
    by (simp_all add: demo_ephemeris1_def demo_entry1_def demo_ephemeris2_def demo_entry2_def
          demo_elevation_def)
  from visible_iff_elevation_at_least_threshold[THEN conjunct1, rule_format, OF r1]
    visible_iff_elevation_at_least_threshold[THEN conjunct2, rule_format, OF r2] t
  show ?thesis
    using demo_run1[of "[]" "[]"] demo_run2[of 77] by simp
qed

text \<open>C2. A time step whose geometry computation raises is skipped entirely, in either
  program: the loop body leaves every variable of the segmenter as it was (no ephemeris
  record, no pass opened or closed) and the sweep goes on from the next instant. Hence a
  sweep with a positive step returns, and what it returns is what the samples that were
  computed produce, in their order. In the reports of a run, no ephemeris record bears
  the instant of a failed step; and whenever two instants \<open>a \<le> b\<close> of the sweep are
  visible and every instant of the sweep between them is either visible or failed, the
  pass list has exactly one pass that contains both \<open>a\<close> and \<open>b\<close>: failed steps inside
  a visible window do not split the pass.\<close>

theorem failed_step_is_skipped:
  "(geometry1 sky1 sat1 obs1 t1 = None \<and> t1 \<le> e1 \<longrightarrow>
      iteration1 sky1 sat1 obs1 mn1 st1 t1 = st1 \<and>
      sweep1 sky1 sat1 obs1 mn1 e1 dt1 st1 t1 =
        sweep1 sky1 sat1 obs1 mn1 e1 dt1 st1 (t1 + timedelta dt1)) \<and>
   (0 < dt1 \<longrightarrow>
      sweep1 sky1 sat1 obs1 mn1 e1 dt1 st1 t1 =
        Some (foldl (\<lambda>st x. step1 mn1 (fst x) (snd x) st) st1
                (samples (geometry1 sky1 sat1 obs1) (sweep_times t1 e1 dt1)))) \<and>
   (calculate_and_save_data1 sky1 resp l1 l2 la1 lo1 s1 e1 dt1 elev1 mn1 = Some (po1, eo1) \<and>
    EarthSatellite sky1 l1 l2 = Some sat1 \<and>
    geometry1 sky1 sat1 (latlon sky1 la1 lo1 elev1) t1 = None \<longrightarrow>
      t1 \<notin> set (map timestamp (eo_ephemeris eo1))) \<and>
   (calculate_and_save_data1 sky1 resp l1 l2 la1 lo1 s1 e1 dt1 elev1 mn1 = Some (po1, eo1) \<and>
    EarthSatellite sky1 l1 l2 = Some sat1 \<and>
    a1 \<in> set (sweep_times s1 e1 dt1) \<and> b1 \<in> set (sweep_times s1 e1 dt1) \<and> a1 \<le> b1 \<and>
    visible_at (geometry1 sky1 sat1 (latlon sky1 la1 lo1 elev1)) mn1 a1 \<and>
    visible_at (geometry1 sky1 sat1 (latlon sky1 la1 lo1 elev1)) mn1 b1 \<and>
    (\<forall>t \<in> set (sweep_times s1 e1 dt1). a1 \<le> t \<and> t \<le> b1 \<longrightarrow>
       geometry1 sky1 sat1 (latlon sky1 la1 lo1 elev1) t = None \<or>
       visible_at (geometry1 sky1 sat1 (latlon sky1 la1 lo1 elev1)) mn1 t) \<longrightarrow>
      (\<exists>!p. p \<in> set (po_passes po1) \<and> start p \<le> a1 \<and> b1 \<le> pass_end p)) \<and>
   (geometry2 sky2 sat2 obs2 t2 = None \<and> t2 \<le> e2 \<longrightarrow>
      iteration2 sky2 sat2 obs2 mn2 st2 t2 = st2 \<and>
      sweep2 sky2 sat2 obs2 mn2 e2 dt2 st2 t2 =
        sweep2 sky2 sat2 obs2 mn2 e2 dt2 st2 (t2 + timedelta dt2)) \<and>
   (0 < dt2 \<longrightarrow>
      sweep2 sky2 sat2 obs2 mn2 e2 dt2 st2 t2 =
        Some (foldl (\<lambda>st x. step2 mn2 (fst x) (snd x) st) st2
                (samples (geometry2 sky2 sat2 obs2) (sweep_times t2 e2 dt2)))) \<and>
   (calculate_and_save_data2 sky2 now nid la2 lo2 s2 e2 dt2 elev2 mn2 = Some (po2, eo2) \<and>
    get_tle sky2 nid = Some sat2 \<and>
    geometry2 sky2 sat2 (latlon sky2 la2 lo2 elev2) t2 = None \<longrightarrow>
      t2 \<notin> set (map timestamp (eo_ephemeris2 eo2))) \<and>
   (calculate_and_save_data2 sky2 now nid la2 lo2 s2 e2 dt2 elev2 mn2 = Some (po2, eo2) \<and>
    get_tle sky2 nid = Some sat2 \<and>
    a2 \<in> set (sweep_times s2 e2 dt2) \<and> b2 \<in> set (sweep_times s2 e2 dt2) \<and> a2 \<le> b2 \<and>
    visible_at (geometry2 sky2 sat2 (latlon sky2 la2 lo2 elev2)) mn2 a2 \<and>
    visible_at (geometry2 sky2 sat2 (latlon sky2 la2 lo2 elev2)) mn2 b2 \<and>
    (\<forall>t \<in> set (sweep_times s2 e2 dt2). a2 \<le> t \<and> t \<le> b2 \<longrightarrow>
       geometry2 sky2 sat2 (latlon sky2 la2 lo2 elev2) t = None \<or>
       visible_at (geometry2 sky2 sat2 (latlon sky2 la2 lo2 elev2)) mn2 t) \<longrightarrow>
      (\<exists>!p. p \<in> set (po_passes2 po2) \<and> start p \<le> a2 \<and> b2 \<le> pass_end p))"
proof -
  have c1: "iteration1 sky1 sat1 obs1 mn1 st1 t1 = st1 \<and>
      sweep1 sky1 sat1 obs1 mn1 e1 dt1 st1 t1 =
        sweep1 sky1 sat1 obs1 mn1 e1 dt1 st1 (t1 + timedelta dt1)"
    if a: "geometry1 sky1 sat1 obs1 t1 = None \<and> t1 \<le> e1"
  proof -
    from a have i: "iteration1 sky1 sat1 obs1 mn1 st1 t1 = st1"
      by (simp add: iteration1_def)
    from a have "sweep1 sky1 sat1 obs1 mn1 e1 dt1 st1 t1 =
        sweep1 sky1 sat1 obs1 mn1 e1 dt1 st1 (t1 + timedelta dt1)"
      by (subst sweep1.simps) (simp add: i)
    with i show ?thesis by simp
  qed
  have c2: "sweep1 sky1 sat1 obs1 mn1 e1 dt1 st1 t1 =
        Some (foldl (\<lambda>st x. step1 mn1 (fst x) (snd x) st) st1
                (samples (geometry1 sky1 sat1 obs1) (sweep_times t1 e1 dt1)))"
    if "0 < dt1"
    using that by (simp only: sweep1_total samples_fold1)
  have c3: "t1 \<notin> set (map timestamp (eo_ephemeris eo1))"
    if "calculate_and_save_data1 sky1 resp l1 l2 la1 lo1 s1 e1 dt1 elev1 mn1 = Some (po1, eo1) \<and>
        EarthSatellite sky1 l1 l2 = Some sat1 \<and>
        geometry1 sky1 sat1 (latlon sky1 la1 lo1 elev1) t1 = None"
  proof -
    from that
    have r: "calculate_and_save_data1 sky1 resp l1 l2 la1 lo1 s1 e1 dt1 elev1 mn1 = Some (po1, eo1)"
      and sat: "EarthSatellite sky1 l1 l2 = Some sat1"
      by simp_all
    have "set (map timestamp (eo_ephemeris eo1)) =
        {t \<in> set (sweep_times s1 e1 dt1).
           visible_at (geometry1 sky1 sat1 (latlon sky1 la1 lo1 elev1)) mn1 t}"
      by (rule record_times1[OF r sat])
    with that show ?thesis
      by (simp add: visible_at_def)
  qed
  have c4: "\<exists>!p. p \<in> set (po_passes po1) \<and> start p \<le> a1 \<and> b1 \<le> pass_end p"
    if "calculate_and_save_data1 sky1 resp l1 l2 la1 lo1 s1 e1 dt1 elev1 mn1 = Some (po1, eo1) \<and>
        EarthSatellite sky1 l1 l2 = Some sat1 \<and>
        a1 \<in> set (sweep_times s1 e1 dt1) \<and> b1 \<in> set (sweep_times s1 e1 dt1) \<and> a1 \<le> b1 \<and>
        visible_at (geometry1 sky1 sat1 (latlon sky1 la1 lo1 elev1)) mn1 a1 \<and>
        visible_at (geometry1 sky1 sat1 (latlon sky1 la1 lo1 elev1)) mn1 b1 \<and>
        (\<forall>t \<in> set (sweep_times s1 e1 dt1). a1 \<le> t \<and> t \<le> b1 \<longrightarrow>
           geometry1 sky1 sat1 (latlon sky1 la1 lo1 elev1) t = None \<or>
           visible_at (geometry1 sky1 sat1 (latlon sky1 la1 lo1 elev1)) mn1 t)"
  proof -
    from that
    have r: "calculate_and_save_data1 sky1 resp l1 l2 la1 lo1 s1 e1 dt1 elev1 mn1 = Some (po1, eo1)"
      and sat: "EarthSatellite sky1 l1 l2 = Some sat1"
      and a: "a1 \<in> set (sweep_times s1 e1 dt1)"
             "visible_at (geometry1 sky1 sat1 (latlon sky1 la1 lo1 elev1)) mn1 a1"
      and b: "b1 \<in> set (sweep_times s1 e1 dt1)"
             "visible_at (geometry1 sky1 sat1 (latlon sky1 la1 lo1 elev1)) mn1 b1"
      and le: "a1 \<le> b1"
      and w: "\<forall>t \<in> set (sweep_times s1 e1 dt1). a1 \<le> t \<and> t \<le> b1 \<longrightarrow>
           geometry1 sky1 sat1 (latlon sky1 la1 lo1 elev1) t = None \<or>
           visible_at (geometry1 sky1 sat1 (latlon sky1 la1 lo1 elev1)) mn1 t"
      by simp_all
    show ?thesis
      by (rule single_pass1[OF r sat a b le w])
  qed
  have c5: "iteration2 sky2 sat2 obs2 mn2 st2 t2 = st2 \<and>
      sweep2 sky2 sat2 obs2 mn2 e2 dt2 st2 t2 =
        sweep2 sky2 sat2 obs2 mn2 e2 dt2 st2 (t2 + timedelta dt2)"
    if a: "geometry2 sky2 sat2 obs2 t2 = None \<and> t2 \<le> e2"
  proof -
    from a have i: "iteration2 sky2 sat2 obs2 mn2 st2 t2 = st2"
      by (simp add: iteration2_def)
    from a have "sweep2 sky2 sat2 obs2 mn2 e2 dt2 st2 t2 =
        sweep2 sky2 sat2 obs2 mn2 e2 dt2 st2 (t2 + timedelta dt2)"
      by (subst sweep2.simps) (simp add: i)
    with i show ?thesis by simp
  qed
  have c6: "sweep2 sky2 sat2 obs2 mn2 e2 dt2 st2 t2 =
        Some (foldl (\<lambda>st x. step2 mn2 (fst x) (snd x) st) st2
                (samples (geometry2 sky2 sat2 obs2) (sweep_times t2 e2 dt2)))"
    if "0 < dt2"
    using that by (simp only: sweep2_total samples_fold2)
  have c7: "t2 \<notin> set (map timestamp (eo_ephemeris2 eo2))"
    if "calculate_and_save_data2 sky2 now nid la2 lo2 s2 e2 dt2 elev2 mn2 = Some (po2, eo2) \<and>
        get_tle sky2 nid = Some sat2 \<and>
        geometry2 sky2 sat2 (latlon sky2 la2 lo2 elev2) t2 = None"
  proof -
    from that
    have r: "calculate_and_save_data2 sky2 now nid la2 lo2 s2 e2 dt2 elev2 mn2 = Some (po2, eo2)"
      and sat: "get_tle sky2 nid = Some sat2"
      by simp_all
    have "set (map timestamp (eo_ephemeris2 eo2)) =
        {t \<in> set (sweep_times s2 e2 dt2).
           visible_at (geometry2 sky2 sat2 (latlon sky2 la2 lo2 elev2)) mn2 t}"
      by (rule record_times2[OF r sat])
    with that show ?thesis
      by (simp add: visible_at_def)
  qed
  have c8: "\<exists>!p. p \<in> set (po_passes2 po2) \<and> start p \<le> a2 \<and> b2 \<le> pass_end p"
    if "calculate_and_save_data2 sky2 now nid la2 lo2 s2 e2 dt2 elev2 mn2 = Some (po2, eo2) \<and>
        get_tle sky2 nid = Some sat2 \<and>
        a2 \<in> set (sweep_times s2 e2 dt2) \<and> b2 \<in> set (sweep_times s2 e2 dt2) \<and> a2 \<le> b2 \<and>
        visible_at (geometry2 sky2 sat2 (latlon sky2 la2 lo2 elev2)) mn2 a2 \<and>
        visible_at (geometry2 sky2 sat2 (latlon sky2 la2 lo2 elev2)) mn2 b2 \<and>
        (\<forall>t \<in> set (sweep_times s2 e2 dt2). a2 \<le> t \<and> t \<le> b2 \<longrightarrow>
           geometry2 sky2 sat2 (latlon sky2 la2 lo2 elev2) t = None \<or>
           visible_at (geometry2 sky2 sat2 (latlon sky2 la2 lo2 elev2)) mn2 t)"
  proof -
    from that
    have r: "calculate_and_save_data2 sky2 now nid la2 lo2 s2 e2 dt2 elev2 mn2 = Some (po2, eo2)"
      and sat: "get_tle sky2 nid = Some sat2"
      and a: "a2 \<in> set (sweep_times s2 e2 dt2)"
             "visible_at (geometry2 sky2 sat2 (latlon sky2 la2 lo2 elev2)) mn2 a2"
      and b: "b2 \<in> set (sweep_times s2 e2 dt2)"
             "visible_at (geometry2 sky2 sat2 (latlon sky2 la2 lo2 elev2)) mn2 b2"
      and le: "a2 \<le> b2"
      and w: "\<forall>t \<in> set (sweep_times s2 e2 dt2). a2 \<le> t \<and> t \<le> b2 \<longrightarrow>
           geometry2 sky2 sat2 (latlon sky2 la2 lo2 elev2) t = None \<or>
           visible_at (geometry2 sky2 sat2 (latlon sky2 la2 lo2 elev2)) mn2 t"
      by simp_all
    show ?thesis
      by (rule single_pass2[OF r sat a b le w])
  qed
  show ?thesis
    by (assumption | rule c1 c2 c3 c4 c5 c6 c7 c8 | rule impI | rule conjI)+
qed

theorem failed_step_is_skipped_witness:
  "geometry1 demo_sky demo_satellite (latlon demo_sky 55.75 37.5 150) 2000000 = None \<and>
   geometry2 demo_sky demo_satellite (latlon demo_sky 55.75 37.5 150) 2000000 = None \<and>
   iteration1 demo_sky demo_satellite (latlon demo_sky 55.75 37.5 150) 10 init_state 2000000
     = init_state \<and>
   iteration2 demo_sky demo_satellite (latlon demo_sky 55.75 37.5 150) 10 init_state 2000000
     = init_state \<and>
   sweep1 demo_sky demo_satellite (latlon demo_sky 55.75 37.5 150) 10 5000000 1 init_state 2000000
     = sweep1 demo_sky demo_satellite (latlon demo_sky 55.75 37.5 150) 10 5000000 1 init_state 3000000 \<and>
   sweep2 demo_sky demo_satellite (latlon demo_sky 55.75 37.5 150) 10 5000000 1 init_state 2000000
     = sweep2 demo_sky demo_satellite (latlon demo_sky 55.75 37.5 150) 10 5000000 1 init_state 3000000 \<and>
   sweep1 demo_sky demo_satellite (latlon demo_sky 55.75 37.5 150) 10 5000000 1 init_state 0
     = Some \<lparr>passes_data = [hd demo_passes1], ephemeris_data = demo_ephemeris1,
             pass_counter = 2, current_pass = Some ((demo_passes1 ! 1)\<lparr>duration_sec := 0\<rparr>)\<rparr> \<and>
   sweep2 demo_sky demo_satellite (latlon demo_sky 55.75 37.5 150) 10 5000000 1 init_state 0
     = Some \<lparr>passes_data = [hd demo_passes2], ephemeris_data = demo_ephemeris2,
             pass_counter = 2, current_pass = Some ((demo_passes2 ! 1)\<lparr>duration_sec := 0\<rparr>)\<rparr> \<and>
   map fst (samples (geometry1 demo_sky demo_satellite (latlon demo_sky 55.75 37.5 150))
              (sweep_times 0 5000000 1)) = [0, 1000000, 3000000, 4000000, 5000000] \<and>
   map pass_view demo_passes1 =
     [(1, 1000000, 3000000, 10.004), (2, 5000000, 5000000, 20.0004)] \<and>
   map pass_view demo_passes2 = [(1, 1000000, 3000000, 10), (2, 5000000, 5000000, 20)] \<and>
   calculate_and_save_data1 demo_sky None [] [] 55.75 37.5 0 5000000 1 150 10 =
     Some (demo_output1 ''SAT-25544'') \<and>
   calculate_and_save_data2 demo_sky 77 25544 55.75 37.5 0 5000000 1 150 10 =
     Some (demo_output2 77) \<and>
   sweep_times 0 5000000 1 = [0, 1000000, 2000000, 3000000, 4000000, 5000000] \<and>
   2000000 \<notin> set (map timestamp demo_ephemeris1) \<and>
   2000000 \<notin> set (map timestamp demo_ephemeris2) \<and>
   (\<exists>!p. p \<in> set demo_passes1 \<and> start p \<le> 1000000 \<and> 3000000 \<le> pass_end p) \<and>
   (\<exists>!p. p \<in> set demo_passes2 \<and> start p \<le> 1000000 \<and> 3000000 \<le> pass_end p)"
proof -
  have g: "geometry1 demo_sky demo_satellite (latlon demo_sky 55.75 37.5 150) 2000000 = None
           \<and> (2000000 :: int) \<le> 5000000"
    "geometry2 demo_sky demo_satellite (latlon demo_sky 55.75 37.5 150) 2000000 = None
           \<and> (2000000 :: int) \<le> 5000000"
    by (simp_all add: demo_geometry1 demo_geometry2)
  have s: "map fst (samples (geometry1 demo_sky demo_satellite (latlon demo_sky 55.75 37.5 150))
              (sweep_times 0 5000000 1)) = [0, 1000000, 3000000, 4000000, 5000000]"
    by (simp add: demo_times samples_Cons demo_geometry1)
  have v: "map pass_view demo_passes1 =
     [(1, 1000000, 3000000, 10.004), (2, 5000000, 5000000, 20.0004)]"
    "map pass_view demo_passes2 = [(1, 1000000, 3000000, 10), (2, 5000000, 5000000, 20)]"
    by (simp_all add: demo_passes1_def demo_passes2_def pass_view_def)
  have t: "2000000 + timedelta 1 = 3000000" by (simp add: timedelta_def)
  have p: "(0 :: int) < 1" by simp
  note f1 = failed_step_is_skipped[THEN conjunct2, THEN conjunct1, rule_format, OF p,
      where ?sky1.0 = demo_sky and ?sat1.0 = demo_satellite
        and ?obs1.0 = "latlon demo_sky 55.75 37.5 150" and ?mn1.0 = 10 and ?e1.0 = 5000000
        and ?st1.0 = init_state and ?t1.0 = 0]
  note f2 = failed_step_is_skipped[THEN conjunct2, THEN conjunct2, THEN conjunct2, THEN conjunct2,
      THEN conjunct2, THEN conjunct1, rule_format,
      OF p, where ?sky2.0 = demo_sky and ?sat2.0 = demo_satellite
        and ?obs2.0 = "latlon demo_sky 55.75 37.5 150" and ?mn2.0 = 10 and ?e2.0 = 5000000
        and ?st2.0 = init_state and ?t2.0 = 0]
  have w1: "sweep1 demo_sky demo_satellite (latlon demo_sky 55.75 37.5 150) 10 5000000 1 init_state 0
     = Some \<lparr>passes_data = [hd demo_passes1], ephemeris_data = demo_ephemeris1,
             pass_counter = 2, current_pass = Some ((demo_passes1 ! 1)\<lparr>duration_sec := 0\<rparr>)\<rparr>"
    by (simp only: f1 samples_fold1[symmetric] demo_sweep1)
  have w2: "sweep2 demo_sky demo_satellite (latlon demo_sky 55.75 37.5 150) 10 5000000 1 init_state 0
     = Some \<lparr>passes_data = [hd demo_passes2], ephemeris_data = demo_ephemeris2,
             pass_counter = 2, current_pass = Some ((demo_passes2 ! 1)\<lparr>duration_sec := 0\<rparr>)\<rparr>"
    by (simp only: f2 samples_fold2[symmetric] demo_sweep2)
  have r1: "calculate_and_save_data1 demo_sky None [] [] 55.75 37.5 0 5000000 1 150 10 =
      Some (\<lparr>po_metadata = demo_metadata1 ''SAT-25544'', po_total_passes = 2,
               po_passes = demo_passes1\<rparr>,
            \<lparr>eo_metadata = demo_metadata1 ''SAT-25544'', eo_ephemeris = demo_ephemeris1\<rparr>)"
    using demo_run1[of "[]" "[]"] by (simp add: demo_output1_def)
  have r2: "calculate_and_save_data2 demo_sky 77 25544 55.75 37.5 0 5000000 1 150 10 =
      Some (\<lparr>po_metadata2 = demo_metadata2 77,
               po_statistics = \<lparr>total_passes = 2, visible_time_total = 2\<rparr>,
               po_passes2 = demo_passes2\<rparr>,
            \<lparr>eo_metadata2 = demo_metadata2 77, eo_ephemeris2 = demo_ephemeris2\<rparr>)"
    using demo_run2[of 77] by (simp add: demo_output2_def)
  have h1: "calculate_and_save_data1 demo_sky None [] [] 55.75 37.5 0 5000000 1 150 10 =
      Some (\<lparr>po_metadata = demo_metadata1 ''SAT-25544'', po_total_passes = 2,
               po_passes = demo_passes1\<rparr>,
            \<lparr>eo_metadata = demo_metadata1 ''SAT-25544'', eo_ephemeris = demo_ephemeris1\<rparr>) \<and>
    EarthSatellite demo_sky [] [] = Some demo_satellite \<and>
    geometry1 demo_sky demo_satellite (latlon demo_sky 55.75 37.5 150) 2000000 = None"
    by (intro conjI r1 demo_sky_sel conjunct1[OF g(1)])
  have h2: "calculate_and_save_data2 demo_sky 77 25544 55.75 37.5 0 5000000 1 150 10 =
      Some (\<lparr>po_metadata2 = demo_metadata2 77,
               po_statistics = \<lparr>total_passes = 2, visible_time_total = 2\<rparr>,
               po_passes2 = demo_passes2\<rparr>,
            \<lparr>eo_metadata2 = demo_metadata2 77, eo_ephemeris2 = demo_ephemeris2\<rparr>) \<and>
    get_tle demo_sky 25544 = Some demo_satellite \<and>
    geometry2 demo_sky demo_satellite (latlon demo_sky 55.75 37.5 150) 2000000 = None"
    by (intro conjI r2 demo_sky_sel conjunct1[OF g(2)])
  have win1: "1000000 \<in> set (sweep_times 0 5000000 1) \<and> 3000000 \<in> set (sweep_times 0 5000000 1) \<and>
    (1000000 :: int) \<le> 3000000 \<and>
    visible_at (geometry1 demo_sky demo_satellite (latlon demo_sky 55.75 37.5 150)) 10 1000000 \<and>
    visible_at (geometry1 demo_sky demo_satellite (latlon demo_sky 55.75 37.5 150)) 10 3000000 \<and>
    (\<forall>t \<in> set (sweep_times 0 5000000 1). 1000000 \<le> t \<and> t \<le> 3000000 \<longrightarrow>
       geometry1 demo_sky demo_satellite (latlon demo_sky 55.75 37.5 150) t = None \<or>
       visible_at (geometry1 demo_sky demo_satellite (latlon demo_sky 55.75 37.5 150)) 10 t)"
    by (simp add: demo_times visible_at_def demo_geometry1 demo_elevation_def)
  have win2: "1000000 \<in> set (sweep_times 0 5000000 1) \<and> 3000000 \<in> set (sweep_times 0 5000000 1) \<and>
    (1000000 :: int) \<le> 3000000 \<and>
    visible_at (geometry2 demo_sky demo_satellite (latlon demo_sky 55.75 37.5 150)) 10 1000000 \<and>
    visible_at (geometry2 demo_sky demo_satellite (latlon demo_sky 55.75 37.5 150)) 10 3000000 \<and>
    (\<forall>t \<in> set (sweep_times 0 5000000 1). 1000000 \<le> t \<and> t \<le> 3000000 \<longrightarrow>
       geometry2 demo_sky demo_satellite (latlon demo_sky 55.75 37.5 150) t = None \<or>
       visible_at (geometry2 demo_sky demo_satellite (latlon demo_sky 55.75 37.5 150)) 10 t)"
    by (simp add: demo_times visible_at_def demo_geometry2 demo_elevation_def)
  have n1: "2000000 \<notin> set (map timestamp (eo_ephemeris
      \<lparr>eo_metadata = demo_metadata1 ''SAT-25544'', eo_ephemeris = demo_ephemeris1\<rparr>))"
    by (rule failed_step_is_skipped[THEN conjunct2, THEN conjunct2, THEN conjunct1, rule_format,
      OF h1])
  have n2: "2000000 \<notin> set (map timestamp (eo_ephemeris2
      \<lparr>eo_metadata2 = demo_metadata2 77, eo_ephemeris2 = demo_ephemeris2\<rparr>))"
    by (rule failed_step_is_skipped[THEN conjunct2, THEN conjunct2, THEN conjunct2, THEN conjunct2,
      THEN conjunct2, THEN conjunct2, THEN conjunct1, rule_format, OF h2])
  have u1: "\<exists>!p. p \<in> set (po_passes \<lparr>po_metadata = demo_metadata1 ''SAT-25544'',
      po_total_passes = 2, po_passes = demo_passes1\<rparr>) \<and> start p \<le> 1000000 \<and> 3000000 \<le> pass_end p"
    by (rule failed_step_is_skipped[THEN conjunct2, THEN conjunct2, THEN conjunct2, THEN conjunct1,
      rule_format, OF conjI[OF r1 conjI[OF demo_sky_sel(1) win1]]])
  have u2: "\<exists>!p. p \<in> set (po_passes2 \<lparr>po_metadata2 = demo_metadata2 77,
               po_statistics = \<lparr>total_passes = 2, visible_time_total = 2\<rparr>,
               po_passes2 = demo_passes2\<rparr>) \<and> start p \<le> 1000000 \<and> 3000000 \<le> pass_end p"
    by (rule failed_step_is_skipped[THEN conjunct2, THEN conjunct2, THEN conjunct2, THEN conjunct2,
      THEN conjunct2, THEN conjunct2, THEN conjunct2, rule_format,
      OF conjI[OF r2 conjI[OF demo_sky_sel(2) win2]]])
  from failed_step_is_skipped[THEN conjunct1, rule_format, OF g(1),
      where ?mn1.0 = 10 and ?st1.0 = init_state and ?dt1.0 = 1]
    failed_step_is_skipped[THEN conjunct2, THEN conjunct2, THEN conjunct2, THEN conjunct2,
      THEN conjunct1, rule_format, OF g(2),
      where ?mn2.0 = 10 and ?st2.0 = init_state and ?dt2.0 = 1]
    g s v t w1 w2 n1 n2 u1 u2 demo_times
  show ?thesis
    using demo_run1[of "[]" "[]"] demo_run2[of 77] by simp
qed

text \<open>C10, as the claim states it, fails for variant 2: that program stores elevations
  rounded to two places, and rounding can take a visible sample's elevation below a
  threshold that is not a multiple of 0.01. A pass opened by one sample at 10.004
  degrees under a threshold of 10.001 degrees is written with a maximum of 10.\<close>

theorem max_elevation_below_threshold_counterexample:
  "map_option (map max_elevation \<circ> po_passes2 \<circ> fst)
     (calculate_and_save_data2 demo_sky 77 25544 55.75 37.5 3000000 3000000 1 150 10.001) =
   Some [10] \<and> (10 :: real) < 10.001"
  by (simp add: calculate_and_save_data2_def Let_def demo_sky_sel sweep2_total short_times
        iteration2_def demo_geometry2 step2_def init_state_def demo_elevation_def
        last_pass2_def close_pass2_def total_seconds_def py_round_def round_half_even_def)

text \<open>C10, amended. Every pass variant 1 writes has a maximum elevation greater than or
  equal to the minimum elevation. Every pass variant 2 writes has a maximum elevation
  greater than or equal to the minimum elevation rounded to two places.\<close>

theorem max_elevation_at_least_threshold:
  "(calculate_and_save_data1 sky1 resp l1 l2 la1 lo1 s1 e1 dt1 elev1 mn1 = Some (po1, eo1) \<longrightarrow>
      (\<forall>p \<in> set (po_passes po1). mn1 \<le> max_elevation p)) \<and>
   (calculate_and_save_data2 sky2 now nid la2 lo2 s2 e2 dt2 elev2 mn2 = Some (po2, eo2) \<longrightarrow>
      (\<forall>p \<in> set (po_passes2 po2). py_round mn2 2 \<le> max_elevation p))"
proof (intro conjI impI ballI)
  fix p
  assume r: "calculate_and_save_data1 sky1 resp l1 l2 la1 lo1 s1 e1 dt1 elev1 mn1 = Some (po1, eo1)"
    and p: "p \<in> set (po_passes po1)"
  from view_elev[OF views1[OF r] stream1_sorted] p
  obtain x where "x \<in> set (map (classify id mn1) (samples1 sky1 l1 l2 la1 lo1 elev1 s1 e1 dt1))"
    "snd (snd x)" "max_elevation p = fst (snd x)"
    by blast
  then show "mn1 \<le> max_elevation p"
    by (auto simp: classify_def)
next
  fix p
  assume r: "calculate_and_save_data2 sky2 now nid la2 lo2 s2 e2 dt2 elev2 mn2 = Some (po2, eo2)"
    and p: "p \<in> set (po_passes2 po2)"
  from view_elev[OF views2[OF r] stream2_sorted] p
  obtain x where "x \<in> set (map (classify round2 mn2) (samples2 sky2 nid la2 lo2 elev2 s2 e2 dt2))"
    "snd (snd x)" "max_elevation p = fst (snd x)"
    by blast
  then have "round2 mn2 \<le> max_elevation p"
    by (auto simp: classify_def round2_mono)
  then show "py_round mn2 2 \<le> max_elevation p"
    by (simp add: round2_def)
qed

theorem max_elevation_at_least_threshold_witness:
  "calculate_and_save_data1 demo_sky None [] [] 55.75 37.5 0 5000000 1 150 10 =
     Some (demo_output1 ''SAT-25544'') \<and>
   calculate_and_save_data2 demo_sky 77 25544 55.75 37.5 0 5000000 1 150 10 =
     Some (demo_output2 77) \<and>
   10 \<le> max_elevation (demo_passes1 ! 0) \<and> py_round 10 2 \<le> max_elevation (demo_passes2 ! 0)"
proof -
  have r1: "calculate_and_save_data1 demo_sky None [] [] 55.75 37.5 0 5000000 1 150 10 =
      Some (\<lparr>po_metadata = demo_metadata1 ''SAT-25544'', po_total_passes = 2,
               po_passes = demo_passes1\<rparr>,
            \<lparr>eo_metadata = demo_metadata1 ''SAT-25544'', eo_ephemeris = demo_ephemeris1\<rparr>)"
    using demo_run1[of "[]" "[]"] by (simp add: demo_output1_def)
  have r2: "calculate_and_save_data2 demo_sky 77 25544 55.75 37.5 0 5000000 1 150 10 =
      Some (\<lparr>po_metadata2 = demo_metadata2 77,
               po_statistics = \<lparr>total_passes = 2, visible_time_total = 2\<rparr>,
               po_passes2 = demo_passes2\<rparr>,
            \<lparr>eo_metadata2 = demo_metadata2 77, eo_ephemeris2 = demo_ephemeris2\<rparr>)"
    using demo_run2[of 77] by (simp add: demo_output2_def)
  have m: "demo_passes1 ! 0 \<in> set (po_passes \<lparr>po_metadata = demo_metadata1 ''SAT-25544'',
              po_total_passes = 2, po_passes = demo_passes1\<rparr>)"
    "demo_passes2 ! 0 \<in> set (po_passes2 \<lparr>po_metadata2 = demo_metadata2 77,
               po_statistics = \<lparr>total_passes = 2, visible_time_total = 2\<rparr>,
               po_passes2 = demo_passes2\<rparr>)"
    by (simp_all add: demo_passes1_def demo_passes2_def)
  from max_elevation_at_least_threshold[THEN conjunct1, rule_format, OF r1 m(1)]
    max_elevation_at_least_threshold[THEN conjunct2, rule_format, OF r2 m(2)]
  show ?thesis
    using demo_run1[of "[]" "[]"] demo_run2[of 77] by simp
qed




text \<open>C4, as the claim states it, fails for variant 1: besides the element set and the
  sweep parameters, that program reads the answer of the catalogue to a name lookup, and
  writes the name into the metadata of both reports. Two runs on the same element lines
  and the same sweep parameters, one with the lookup failing and one with the catalogue
  answering, write different reports.\<close>

theorem reports_depend_on_name_lookup_counterexample:
  "calculate_and_save_data1 demo_sky None [] [] 55.75 37.5 0 5000000 1 150 10 \<noteq>
     calculate_and_save_data1 demo_sky (Some demo_response) [] [] 55.75 37.5 0 5000000 1 150 10 \<and>
   map_option (md_satellite_name \<circ> po_metadata \<circ> fst)
     (calculate_and_save_data1 demo_sky None [] [] 55.75 37.5 0 5000000 1 150 10) =
     Some ''SAT-25544'' \<and>
   map_option (md_satellite_name \<circ> po_metadata \<circ> fst)
     (calculate_and_save_data1 demo_sky (Some demo_response) [] [] 55.75 37.5 0 5000000 1 150 10) =
     Some ''ISS''"
proof -
  have d: "demo_output1 ''SAT-25544'' \<noteq> demo_output1 ''ISS''"
    by (simp add: demo_output1_def demo_metadata1_def)
  have n: "md_satellite_name (po_metadata (fst (demo_output1 nm))) = nm" for nm
    by (simp add: demo_output1_def demo_metadata1_def)
  from d n show ?thesis
    by (simp only: demo_run1_any demo_names option.inject option.map comp_apply) simp
qed

text \<open>C4, amended. The reports are a function of the element set, the sweep parameters
  and, in variant 1, the answer to the name lookup, in variant 2, the clock. In variant 1
  a second run with another answer to the lookup returns when the first does, and its
  reports are those of the first with only the satellite name replaced by the name the
  second lookup gives; when the two lookups give the same name the two runs write the
  same reports. In variant 2 a second run at another reading of the clock returns when
  the first does, and its reports are those of the first with only the instant of
  calculation replaced.\<close>

theorem reports_determined_by_inputs:
  "(calculate_and_save_data1 sky1 resp l1 l2 la1 lo1 s1 e1 dt1 elev1 mn1 = Some (po1, eo1) \<and>
    EarthSatellite sky1 l1 l2 = Some sat1 \<longrightarrow>
      md_satellite_name (po_metadata po1) = get_satellite_name resp (satnum sat1) \<and>
      md_satellite_name (eo_metadata eo1) = get_satellite_name resp (satnum sat1) \<and>
      calculate_and_save_data1 sky1 resp' l1 l2 la1 lo1 s1 e1 dt1 elev1 mn1 =
        Some (po1\<lparr>po_metadata := (po_metadata po1)
                     \<lparr>md_satellite_name := get_satellite_name resp' (satnum sat1)\<rparr>\<rparr>,
              eo1\<lparr>eo_metadata := (eo_metadata eo1)
                     \<lparr>md_satellite_name := get_satellite_name resp' (satnum sat1)\<rparr>\<rparr>)) \<and>
   (EarthSatellite sky1 l1 l2 = Some sat1 \<and>
    get_satellite_name resp (satnum sat1) = get_satellite_name resp' (satnum sat1) \<longrightarrow>
      calculate_and_save_data1 sky1 resp l1 l2 la1 lo1 s1 e1 dt1 elev1 mn1 =
        calculate_and_save_data1 sky1 resp' l1 l2 la1 lo1 s1 e1 dt1 elev1 mn1) \<and>
   (calculate_and_save_data2 sky2 now nid la2 lo2 s2 e2 dt2 elev2 mn2 = Some (po2, eo2) \<longrightarrow>
      md_utc_calculated (md_calculation (po_metadata2 po2)) = now \<and>
      md_utc_calculated (md_calculation (eo_metadata2 eo2)) = now \<and>
      calculate_and_save_data2 sky2 now' nid la2 lo2 s2 e2 dt2 elev2 mn2 =
        Some (po2\<lparr>po_metadata2 := (po_metadata2 po2)
                     \<lparr>md_calculation := (md_calculation (po_metadata2 po2))
                        \<lparr>md_utc_calculated := now'\<rparr>\<rparr>\<rparr>,
              eo2\<lparr>eo_metadata2 := (eo_metadata2 eo2)
                     \<lparr>md_calculation := (md_calculation (eo_metadata2 eo2))
                        \<lparr>md_utc_calculated := now'\<rparr>\<rparr>\<rparr>))"
proof -
  have c1: "md_satellite_name (po_metadata po1) = get_satellite_name resp (satnum sat1) \<and>
      md_satellite_name (eo_metadata eo1) = get_satellite_name resp (satnum sat1) \<and>
      calculate_and_save_data1 sky1 resp' l1 l2 la1 lo1 s1 e1 dt1 elev1 mn1 =
        Some (po1\<lparr>po_metadata := (po_metadata po1)
                     \<lparr>md_satellite_name := get_satellite_name resp' (satnum sat1)\<rparr>\<rparr>,
              eo1\<lparr>eo_metadata := (eo_metadata eo1)
                     \<lparr>md_satellite_name := get_satellite_name resp' (satnum sat1)\<rparr>\<rparr>)"
    if "calculate_and_save_data1 sky1 resp l1 l2 la1 lo1 s1 e1 dt1 elev1 mn1 = Some (po1, eo1) \<and>
        EarthSatellite sky1 l1 l2 = Some sat1"
    using that
    by (auto simp: calculate_and_save_data1_def Let_def split: bind_splits)
  have c2: "calculate_and_save_data1 sky1 resp l1 l2 la1 lo1 s1 e1 dt1 elev1 mn1 =
        calculate_and_save_data1 sky1 resp' l1 l2 la1 lo1 s1 e1 dt1 elev1 mn1"
    if "EarthSatellite sky1 l1 l2 = Some sat1 \<and>
        get_satellite_name resp (satnum sat1) = get_satellite_name resp' (satnum sat1)"
    using that by (simp add: calculate_and_save_data1_def)
  have c3: "md_utc_calculated (md_calculation (po_metadata2 po2)) = now \<and>
      md_utc_calculated (md_calculation (eo_metadata2 eo2)) = now \<and>
      calculate_and_save_data2 sky2 now' nid la2 lo2 s2 e2 dt2 elev2 mn2 =
        Some (po2\<lparr>po_metadata2 := (po_metadata2 po2)
                     \<lparr>md_calculation := (md_calculation (po_metadata2 po2))
                        \<lparr>md_utc_calculated := now'\<rparr>\<rparr>\<rparr>,
              eo2\<lparr>eo_metadata2 := (eo_metadata2 eo2)
                     \<lparr>md_calculation := (md_calculation (eo_metadata2 eo2))
                        \<lparr>md_utc_calculated := now'\<rparr>\<rparr>\<rparr>)"
    if "calculate_and_save_data2 sky2 now nid la2 lo2 s2 e2 dt2 elev2 mn2 = Some (po2, eo2)"
    using that
    by (auto simp: calculate_and_save_data2_def Let_def split: bind_splits)
  show ?thesis
    by (assumption | rule c1 c2 c3 | rule impI | rule conjI)+
qed

theorem reports_determined_by_inputs_witness:
  "calculate_and_save_data1 demo_sky None [] [] 55.75 37.5 0 5000000 1 150 10 =
     Some (demo_output1 ''SAT-25544'') \<and>
   calculate_and_save_data1 demo_sky (Some demo_response) [] [] 55.75 37.5 0 5000000 1 150 10 =
     Some (demo_output1 ''ISS'') \<and>
   calculate_and_save_data1 demo_sky (Some ''404 Not Found'') [] [] 55.75 37.5 0 5000000 1 150 10 =
     Some (demo_output1 ''SAT-25544'') \<and>
   calculate_and_save_data2 demo_sky 77 25544 55.75 37.5 0 5000000 1 150 10 =
     Some (demo_output2 77) \<and>
   calculate_and_save_data2 demo_sky 78 25544 55.75 37.5 0 5000000 1 150 10 =
     Some (demo_output2 78)"
proof -
  have r1: "calculate_and_save_data1 demo_sky None [] [] 55.75 37.5 0 5000000 1 150 10 =
      Some (\<lparr>po_metadata = demo_metadata1 ''SAT-25544'', po_total_passes = 2,
               po_passes = demo_passes1\<rparr>,
            \<lparr>eo_metadata = demo_metadata1 ''SAT-25544'', eo_ephemeris = demo_ephemeris1\<rparr>) \<and>
      EarthSatellite demo_sky [] [] = Some demo_satellite"
    using demo_run1[of "[]" "[]"] by (simp add: demo_output1_def demo_sky_sel)
  have r2: "calculate_and_save_data2 demo_sky 77 25544 55.75 37.5 0 5000000 1 150 10 =
      Some (\<lparr>po_metadata2 = demo_metadata2 77,
               po_statistics = \<lparr>total_passes = 2, visible_time_total = 2\<rparr>,
               po_passes2 = demo_passes2\<rparr>,
            \<lparr>eo_metadata2 = demo_metadata2 77, eo_ephemeris2 = demo_ephemeris2\<rparr>)"
    using demo_run2[of 77] by (simp add: demo_output2_def)
  have n: "EarthSatellite demo_sky [] [] = Some demo_satellite \<and>
      get_satellite_name None (satnum demo_satellite) =
        get_satellite_name (Some ''404 Not Found'') (satnum demo_satellite)"
    by (simp add: demo_sky_sel get_satellite_name_def)
  from reports_determined_by_inputs[THEN conjunct1, rule_format, OF r1,
      where resp' = "Some demo_response"]
    reports_determined_by_inputs[THEN conjunct2, THEN conjunct1, rule_format, OF n,
      where ?la1.0 = "55.75"
        and ?lo1.0 = "37.5" and ?s1.0 = 0 and ?e1.0 = 5000000 and ?dt1.0 = 1
        and ?elev1.0 = 150 and ?mn1.0 = 10]
    reports_determined_by_inputs[THEN conjunct2, THEN conjunct2, rule_format, OF r2,
      where now' = 78]
    demo_run1[of "[]" "[]"] demo_run2[of 77]
  show ?thesis
    by (simp add: demo_sky_sel demo_names demo_output1_def demo_output2_def
          demo_metadata1_def demo_metadata2_def)
qed

text \<open>C1, as the claim states it, fails for variant 2: that program does not store the
  elevation of a sample in a pass, but the elevation rounded to two places. On the
  synthetic sweep its passes carry the maxima 10 and 20, where the machine of the
  specification, run on the samples the program computed, gives 10.004 and 20.0004.\<close>

theorem segmenter_stores_rounded_elevation_counterexample:
  "map_option (map max_elevation \<circ> po_passes2 \<circ> fst)
     (calculate_and_save_data2 demo_sky 77 25544 55.75 37.5 0 5000000 1 150 10) =
     Some [10, 20] \<and>
   map max_elevation (segmenter_end (segmenter_run
     (map (classify id 10) (samples2 demo_sky 25544 55.75 37.5 150 0 5000000 1)))) =
     [10.004, 20.0004]"
proof -
  have a: "map_option (map max_elevation \<circ> po_passes2 \<circ> fst)
     (calculate_and_save_data2 demo_sky 77 25544 55.75 37.5 0 5000000 1 150 10) = Some [10, 20]"
    using demo_run2[of 77] by (simp add: demo_output2_def demo_passes2_def)
  have b: "map max_elevation (segmenter_end (segmenter_run
     (map (classify id 10) (samples2 demo_sky 25544 55.75 37.5 150 0 5000000 1)))) =
     [10.004, 20.0004]"
    by (simp add: samples2_def demo_sky_sel demo_times samples_Cons demo_geometry2 classify_def
          demo_elevation_def segmenter_run_def segmenter_init_def segmenter_end_def
          spec_close_def)
  from a b show ?thesis by (rule conjI)
qed

text \<open>C1, amended. The samples of a sweep are in strictly increasing order of time. The
  pass list and the pass count variant 1 writes are those of the two-state machine of
  the specification run over these samples, each with its raw elevation and the verdict
  of the threshold test, a pass still open at the end being closed and emitted like the
  others. The passes variant 2 writes (its list of events apart) and its pass count are
  those of the same machine run over the samples with each elevation rounded to two
  places, the verdict still being that of the raw elevation, and with each duration
  rounded to one place.\<close>

theorem pass_segmenter_refines_machine:
  "(calculate_and_save_data1 sky1 resp l1 l2 la1 lo1 s1 e1 dt1 elev1 mn1 = Some (po1, eo1) \<longrightarrow>
      sorted_wrt (<) (map fst (samples1 sky1 l1 l2 la1 lo1 elev1 s1 e1 dt1)) \<and>
      po_passes po1 =
        segmenter_end (segmenter_run
          (map (classify id mn1) (samples1 sky1 l1 l2 la1 lo1 elev1 s1 e1 dt1))) \<and>
      po_total_passes po1 =
        seg_counter (segmenter_run
          (map (classify id mn1) (samples1 sky1 l1 l2 la1 lo1 elev1 s1 e1 dt1)))) \<and>
   (calculate_and_save_data2 sky2 now nid la2 lo2 s2 e2 dt2 elev2 mn2 = Some (po2, eo2) \<longrightarrow>
      sorted_wrt (<) (map fst (samples2 sky2 nid la2 lo2 elev2 s2 e2 dt2)) \<and>
      map pass.truncate (po_passes2 po2) =
        map (\<lambda>p. p\<lparr>duration_sec := py_round (duration_sec p) 1\<rparr>)
          (segmenter_end (segmenter_run
             (map (classify round2 mn2) (samples2 sky2 nid la2 lo2 elev2 s2 e2 dt2)))) \<and>
      total_passes (po_statistics po2) =
        seg_counter (segmenter_run
          (map (classify round2 mn2) (samples2 sky2 nid la2 lo2 elev2 s2 e2 dt2))))"
proof (intro conjI impI)
  show "sorted_wrt (<) (map fst (samples1 sky1 l1 l2 la1 lo1 elev1 s1 e1 dt1))"
    by (rule samples1_sorted)
  show "sorted_wrt (<) (map fst (samples2 sky2 nid la2 lo2 elev2 s2 e2 dt2))"
    by (rule samples2_sorted)
next
  assume r: "calculate_and_save_data1 sky1 resp l1 l2 la1 lo1 s1 e1 dt1 elev1 mn1 = Some (po1, eo1)"
  show "po_passes po1 =
        segmenter_end (segmenter_run
          (map (classify id mn1) (samples1 sky1 l1 l2 la1 lo1 elev1 s1 e1 dt1)))"
    by (rule calc1_run(1)[OF r])
  show "po_total_passes po1 =
        seg_counter (segmenter_run
          (map (classify id mn1) (samples1 sky1 l1 l2 la1 lo1 elev1 s1 e1 dt1)))"
    by (rule calc1_run(2)[OF r])
next
  assume r: "calculate_and_save_data2 sky2 now nid la2 lo2 s2 e2 dt2 elev2 mn2 = Some (po2, eo2)"
  show "map pass.truncate (po_passes2 po2) =
        map (\<lambda>p. p\<lparr>duration_sec := py_round (duration_sec p) 1\<rparr>)
          (segmenter_end (segmenter_run
             (map (classify round2 mn2) (samples2 sky2 nid la2 lo2 elev2 s2 e2 dt2))))"
    by (rule calc2_refines[OF r])
  show "total_passes (po_statistics po2) =
        seg_counter (segmenter_run
          (map (classify round2 mn2) (samples2 sky2 nid la2 lo2 elev2 s2 e2 dt2)))"
    by (rule calc2_run(2)[OF r])
qed

theorem pass_segmenter_refines_machine_witness:
  "calculate_and_save_data1 demo_sky None [] [] 55.75 37.5 0 5000000 1 150 10 =
     Some (demo_output1 ''SAT-25544'') \<and>
   calculate_and_save_data2 demo_sky 77 25544 55.75 37.5 0 5000000 1 150 10 =
     Some (demo_output2 77) \<and>
   map (classify id 10) (samples1 demo_sky [] [] 55.75 37.5 150 0 5000000 1) =
     [(0, 5, False), (1000000, 10, True), (3000000, 10.004, True), (4000000, 3, False),
      (5000000, 20.0004, True)] \<and>
   map (classify round2 10) (samples2 demo_sky 25544 55.75 37.5 150 0 5000000 1) =
     [(0, 5, False), (1000000, 10, True), (3000000, 10, True), (4000000, 3, False),
      (5000000, 20, True)] \<and>
   demo_passes1 =
     segmenter_end (segmenter_run
       (map (classify id 10) (samples1 demo_sky [] [] 55.75 37.5 150 0 5000000 1))) \<and>
   map pass.truncate demo_passes2 =
     map (\<lambda>p. p\<lparr>duration_sec := py_round (duration_sec p) 1\<rparr>)
       (segmenter_end (segmenter_run
          (map (classify round2 10) (samples2 demo_sky 25544 55.75 37.5 150 0 5000000 1)))) \<and>
   seg_counter (segmenter_run
     (map (classify id 10) (samples1 demo_sky [] [] 55.75 37.5 150 0 5000000 1))) = 2"
proof -
  have r1: "calculate_and_save_data1 demo_sky None [] [] 55.75 37.5 0 5000000 1 150 10 =
      Some (\<lparr>po_metadata = demo_metadata1 ''SAT-25544'', po_total_passes = 2,
               po_passes = demo_passes1\<rparr>,
            \<lparr>eo_metadata = demo_metadata1 ''SAT-25544'', eo_ephemeris = demo_ephemeris1\<rparr>)"
    using demo_run1[of "[]" "[]"] by (simp add: demo_output1_def)
  have r2: "calculate_and_save_data2 demo_sky 77 25544 55.75 37.5 0 5000000 1 150 10 =
      Some (\<lparr>po_metadata2 = demo_metadata2 77,
               po_statistics = \<lparr>total_passes = 2, visible_time_total = 2\<rparr>,
               po_passes2 = demo_passes2\<rparr>,
            \<lparr>eo_metadata2 = demo_metadata2 77, eo_ephemeris2 = demo_ephemeris2\<rparr>)"
    using demo_run2[of 77] by (simp add: demo_output2_def)
  have c1: "map (classify id 10) (samples1 demo_sky [] [] 55.75 37.5 150 0 5000000 1) =
     [(0, 5, False), (1000000, 10, True), (3000000, 10.004, True), (4000000, 3, False),
      (5000000, 20.0004, True)]"
    by (simp add: samples1_def demo_sky_sel demo_times samples_Cons demo_geometry1 classify_def
          demo_elevation_def)
  have c2: "map (classify round2 10) (samples2 demo_sky 25544 55.75 37.5 150 0 5000000 1) =
     [(0, 5, False), (1000000, 10, True), (3000000, 10, True), (4000000, 3, False),
      (5000000, 20, True)]"
    by (simp add: samples2_def demo_sky_sel demo_times samples_Cons demo_geometry2 classify_def
          demo_elevation_def round2_def py_round_def round_half_even_def)
  note t1 = pass_segmenter_refines_machine[THEN conjunct1, rule_format, OF r1]
  note t2 = pass_segmenter_refines_machine[THEN conjunct2, rule_format, OF r2]
  have p1: "demo_passes1 =
     segmenter_end (segmenter_run
       (map (classify id 10) (samples1 demo_sky [] [] 55.75 37.5 150 0 5000000 1)))"
    using t1 by simp
  have p2: "map pass.truncate demo_passes2 =
     map (\<lambda>p. p\<lparr>duration_sec := py_round (duration_sec p) 1\<rparr>)
       (segmenter_end (segmenter_run
          (map (classify round2 10) (samples2 demo_sky 25544 55.75 37.5 150 0 5000000 1))))"
    using t2 by simp
  have p3: "seg_counter (segmenter_run
     (map (classify id 10) (samples1 demo_sky [] [] 55.75 37.5 150 0 5000000 1))) = 2"
    using t1 by simp
  from c1 c2 p1 p2 p3 demo_run1[of "[]" "[]"] demo_run2[of 77] show ?thesis
    by (intro conjI)
qed

text \<open>C5, as the claim states it, fails for variant 1: the maximum elevation of a pass is
  written as it was computed, not rounded at all. A pass made of one sample at 20.0004
  degrees is written with the maximum 20.0004, which is not that elevation rounded to
  two or to three places.\<close>

theorem max_elevation_not_rounded_counterexample:
  "map_option (map max_elevation \<circ> po_passes \<circ> fst)
     (calculate_and_save_data1 demo_sky None [] [] 55.75 37.5 5000000 5000000 1 150 10) =
     Some [20.0004] \<and>
   map (\<lambda>x. alt_degrees (snd x)) (samples1 demo_sky [] [] 55.75 37.5 150 5000000 5000000 1) =
     [20.0004] \<and>
   py_round 20.0004 2 = 20 \<and> py_round 20.0004 3 = 20 \<and> (20.0004 :: real) \<noteq> 20"
proof -
  have a: "map_option (map max_elevation \<circ> po_passes \<circ> fst)
     (calculate_and_save_data1 demo_sky None [] [] 55.75 37.5 5000000 5000000 1 150 10) =
     Some [20.0004]"
    by (simp add: calculate_and_save_data1_def Let_def demo_sky_sel sweep1_total short_times
          iteration1_def demo_geometry1 step1_def init_state_def demo_elevation_def
          last_pass1_def close_pass1_def)
  have b: "map (\<lambda>x. alt_degrees (snd x))
      (samples1 demo_sky [] [] 55.75 37.5 150 5000000 5000000 1) = [20.0004]"
    by (simp add: samples1_def demo_sky_sel short_times samples_Cons demo_geometry1
          demo_elevation_def)
  have c: "py_round 20.0004 2 = 20" "py_round 20.0004 3 = 20" "(20.0004 :: real) \<noteq> 20"
    by (simp_all add: py_round_def round_half_even_def)
  from a b c show ?thesis by (intro conjI)
qed

text \<open>C5, amended. The fields of an ephemeris record are each rounded once, from the value
  computed for the sample of its instant: latitude and longitude to 6 places, the height
  to 2 places (variant 1, metres) or 3 places (variant 2, kilometres), elevation, azimuth
  and range to 3 places; there is one record for each visible sample, in the order of the
  sweep. The maximum elevation of a pass is, in variant 1, the greatest raw elevation of
  the samples within the pass, not rounded; in variant 2 it is the greatest of these
  elevations each rounded to 2 places, which is the greatest raw elevation rounded to 2
  places. The duration of a pass is its end less its start in seconds, not rounded in
  variant 1 and rounded to 1 place in variant 2.\<close>

theorem report_fields_rounding:
  "(calculate_and_save_data1 sky1 resp l1 l2 la1 lo1 s1 e1 dt1 elev1 mn1 = Some (po1, eo1) \<longrightarrow>
      map (\<lambda>r. (timestamp r, geodesic r, relative r)) (eo_ephemeris eo1) =
        map (\<lambda>x. (fst x,
                   \<lparr>lat = py_round (sub_lat (snd x)) 6, lon = py_round (sub_lon (snd x)) 6,
                    height_m = py_round (sub_elev_m (snd x)) 2\<rparr>,
                   \<lparr>elevation = py_round (alt_degrees (snd x)) 3,
                    azimuth = py_round (az_degrees (snd x)) 3,
                    distance_km = py_round (dist_km (snd x)) 3\<rparr>))
          (filter (\<lambda>x. mn1 \<le> alt_degrees (snd x))
             (samples1 sky1 l1 l2 la1 lo1 elev1 s1 e1 dt1)) \<and>
      (\<forall>p \<in> set (po_passes po1).
         window_elevations (samples1 sky1 l1 l2 la1 lo1 elev1 s1 e1 dt1) p \<noteq> [] \<and>
         max_elevation p =
           Max (set (window_elevations (samples1 sky1 l1 l2 la1 lo1 elev1 s1 e1 dt1) p)) \<and>
         duration_sec p = total_seconds (pass_end p - start p))) \<and>
   (calculate_and_save_data2 sky2 now nid la2 lo2 s2 e2 dt2 elev2 mn2 = Some (po2, eo2) \<longrightarrow>
      map (\<lambda>r. (timestamp r, geodetic r, topocentric r)) (eo_ephemeris2 eo2) =
        map (\<lambda>x. (fst x,
                   \<lparr>latitude = py_round (sub_lat (snd x)) 6,
                    longitude = py_round (sub_lon (snd x)) 6,
                    altitude_km = py_round (sub_elev_m (snd x) / 1000) 3\<rparr>,
                   \<lparr>elevation = py_round (alt_degrees (snd x)) 3,
                    azimuth = py_round (az_degrees (snd x)) 3,
                    distance_km = py_round (dist_km (snd x)) 3\<rparr>))
          (filter (\<lambda>x. mn2 \<le> alt_degrees (snd x))
             (samples2 sky2 nid la2 lo2 elev2 s2 e2 dt2)) \<and>
      (\<forall>p \<in> set (po_passes2 po2).
         window_elevations (samples2 sky2 nid la2 lo2 elev2 s2 e2 dt2) p \<noteq> [] \<and>
         max_elevation p =
           Max (set (map (\<lambda>x. py_round x 2)
                  (window_elevations (samples2 sky2 nid la2 lo2 elev2 s2 e2 dt2) p))) \<and>
         max_elevation p =
           py_round (Max (set (window_elevations (samples2 sky2 nid la2 lo2 elev2 s2 e2 dt2) p))) 2 \<and>
         duration_sec p = py_round (total_seconds (pass_end p - start p)) 1))"
proof (intro conjI impI ballI)
  assume r: "calculate_and_save_data1 sky1 resp l1 l2 la1 lo1 s1 e1 dt1 elev1 mn1 = Some (po1, eo1)"
  show "map (\<lambda>r. (timestamp r, geodesic r, relative r)) (eo_ephemeris eo1) =
        map (\<lambda>x. (fst x,
                   \<lparr>lat = py_round (sub_lat (snd x)) 6, lon = py_round (sub_lon (snd x)) 6,
                    height_m = py_round (sub_elev_m (snd x)) 2\<rparr>,
                   \<lparr>elevation = py_round (alt_degrees (snd x)) 3,
                    azimuth = py_round (az_degrees (snd x)) 3,
                    distance_km = py_round (dist_km (snd x)) 3\<rparr>))
          (filter (\<lambda>x. mn1 \<le> alt_degrees (snd x))
             (samples1 sky1 l1 l2 la1 lo1 elev1 s1 e1 dt1))"
    by (simp only: calc1_fold(2)[OF r] fold1_fields) (simp add: init_state_def)
  fix p assume p: "p \<in> set (po_passes po1)"
  have m: "\<And>a b :: real. a \<le> b \<Longrightarrow> id a \<le> id b" by simp
  from window_max[OF views1[OF r] samples1_sorted m p]
  show "window_elevations (samples1 sky1 l1 l2 la1 lo1 elev1 s1 e1 dt1) p \<noteq> []"
    "max_elevation p =
       Max (set (window_elevations (samples1 sky1 l1 l2 la1 lo1 elev1 s1 e1 dt1) p))"
    by simp_all
  from run_closed[OF stream1_sorted[of id mn1 sky1 l1 l2 la1 lo1 elev1 s1 e1 dt1]] p
  show "duration_sec p = total_seconds (pass_end p - start p)"
    by (simp only: calc1_run(1)[OF r])
next
  assume r: "calculate_and_save_data2 sky2 now nid la2 lo2 s2 e2 dt2 elev2 mn2 = Some (po2, eo2)"
  show "map (\<lambda>r. (timestamp r, geodetic r, topocentric r)) (eo_ephemeris2 eo2) =
        map (\<lambda>x. (fst x,
                   \<lparr>latitude = py_round (sub_lat (snd x)) 6,
                    longitude = py_round (sub_lon (snd x)) 6,
                    altitude_km = py_round (sub_elev_m (snd x) / 1000) 3\<rparr>,
                   \<lparr>elevation = py_round (alt_degrees (snd x)) 3,
                    azimuth = py_round (az_degrees (snd x)) 3,
                    distance_km = py_round (dist_km (snd x)) 3\<rparr>))
          (filter (\<lambda>x. mn2 \<le> alt_degrees (snd x))
             (samples2 sky2 nid la2 lo2 elev2 s2 e2 dt2))"
    by (simp only: calc2_fold(2)[OF r] fold2_fields) (simp add: init_state_def)
  fix p assume p: "p \<in> set (po_passes2 po2)"
  let ?W = "window_elevations (samples2 sky2 nid la2 lo2 elev2 s2 e2 dt2) p"
  from window_max[OF views2[OF r] samples2_sorted round2_mono p]
  have ne: "?W \<noteq> []" and mx: "max_elevation p = py_round (Max (set ?W)) 2"
    by (simp_all add: round2_def)
  from ne show "?W \<noteq> []" .
  from mx show "max_elevation p = py_round (Max (set ?W)) 2" .
  have "mono (\<lambda>x. py_round x 2)"
    by (rule monoI) (rule py_round_mono)
  from mono_Max_commute[OF this, of "set ?W"] ne
  have "py_round (Max (set ?W)) 2 = Max (set (map (\<lambda>x. py_round x 2) ?W))"
    by simp
  with mx show "max_elevation p = Max (set (map (\<lambda>x. py_round x 2) ?W))"
    by simp
  from calc2_durations[OF r] p
  show "duration_sec p = py_round (total_seconds (pass_end p - start p)) 1"
    by blast
qed

theorem report_fields_rounding_witness:
  "calculate_and_save_data1 demo_sky None [] [] 55.75 37.5 0 5000000 1 150 10 =
     Some (demo_output1 ''SAT-25544'') \<and>
   calculate_and_save_data2 demo_sky 77 25544 55.75 37.5 0 5000000 1 150 10 =
     Some (demo_output2 77) \<and>
   map (\<lambda>x. alt_degrees (snd x)) (samples1 demo_sky [] [] 55.75 37.5 150 0 5000000 1) =
     [5, 10, 10.004, 3, 20.0004] \<and>
   map (\<lambda>r. elevation (relative r)) demo_ephemeris1 = [10, 10.004, 20] \<and>
   map (\<lambda>r. elevation (topocentric r)) demo_ephemeris2 = [10, 10.004, 20] \<and>
   map (\<lambda>r. altitude_km (geodetic r)) demo_ephemeris2 = [420, 420, 420] \<and>
   window_elevations (samples1 demo_sky [] [] 55.75 37.5 150 0 5000000 1) (demo_passes1 ! 0) =
     [10, 10.004] \<and>
   window_elevations (samples2 demo_sky 25544 55.75 37.5 150 0 5000000 1) (demo_passes2 ! 0) =
     [10, 10.004] \<and>
   max_elevation (demo_passes1 ! 0) = 10.004 \<and>
   max_elevation (demo_passes2 ! 0) = 10 \<and>
   max_elevation (demo_passes1 ! 0) =
     Max (set (window_elevations (samples1 demo_sky [] [] 55.75 37.5 150 0 5000000 1)
                 (demo_passes1 ! 0))) \<and>
   max_elevation (demo_passes2 ! 0) =
     py_round (Max (set (window_elevations (samples2 demo_sky 25544 55.75 37.5 150 0 5000000 1)
                 (demo_passes2 ! 0)))) 2 \<and>
   duration_sec (demo_passes1 ! 0) = 2 \<and> duration_sec (demo_passes2 ! 0) = 2"
proof -
  have r1: "calculate_and_save_data1 demo_sky None [] [] 55.75 37.5 0 5000000 1 150 10 =
      Some (\<lparr>po_metadata = demo_metadata1 ''SAT-25544'', po_total_passes = 2,
               po_passes = demo_passes1\<rparr>,
            \<lparr>eo_metadata = demo_metadata1 ''SAT-25544'', eo_ephemeris = demo_ephemeris1\<rparr>)"
    using demo_run1[of "[]" "[]"] by (simp add: demo_output1_def)
  have r2: "calculate_and_save_data2 demo_sky 77 25544 55.75 37.5 0 5000000 1 150 10 =
      Some (\<lparr>po_metadata2 = demo_metadata2 77,
               po_statistics = \<lparr>total_passes = 2, visible_time_total = 2\<rparr>,
               po_passes2 = demo_passes2\<rparr>,
            \<lparr>eo_metadata2 = demo_metadata2 77, eo_ephemeris2 = demo_ephemeris2\<rparr>)"
    using demo_run2[of 77] by (simp add: demo_output2_def)
  have m: "demo_passes1 ! 0 \<in> set (po_passes \<lparr>po_metadata = demo_metadata1 ''SAT-25544'',
              po_total_passes = 2, po_passes = demo_passes1\<rparr>)"
    "demo_passes2 ! 0 \<in> set (po_passes2 \<lparr>po_metadata2 = demo_metadata2 77,
               po_statistics = \<lparr>total_passes = 2, visible_time_total = 2\<rparr>,
               po_passes2 = demo_passes2\<rparr>)"
    by (simp_all add: demo_passes1_def demo_passes2_def)
  note a1 = report_fields_rounding[THEN conjunct1, THEN mp, OF r1]
  note a2 = report_fields_rounding[THEN conjunct2, THEN mp, OF r2]
  note b1 = a1[THEN conjunct2, THEN bspec, OF m(1)]
  note b2 = a2[THEN conjunct2, THEN bspec, OF m(2)]
  have s: "map (\<lambda>x. alt_degrees (snd x)) (samples1 demo_sky [] [] 55.75 37.5 150 0 5000000 1) =
     [5, 10, 10.004, 3, 20.0004]"
    by (simp add: samples1_def demo_sky_sel demo_times samples_Cons demo_geometry1
          demo_elevation_def)
  have e: "map (\<lambda>r. elevation (relative r)) demo_ephemeris1 = [10, 10.004, 20]"
    "map (\<lambda>r. elevation (topocentric r)) demo_ephemeris2 = [10, 10.004, 20]"
    "map (\<lambda>r. altitude_km (geodetic r)) demo_ephemeris2 = [420, 420, 420]"
    by (simp_all add: demo_ephemeris1_def demo_ephemeris2_def demo_entry1_def demo_entry2_def)
  have w: "window_elevations (samples1 demo_sky [] [] 55.75 37.5 150 0 5000000 1)
             (demo_passes1 ! 0) = [10, 10.004]"
    "window_elevations (samples2 demo_sky 25544 55.75 37.5 150 0 5000000 1)
             (demo_passes2 ! 0) = [10, 10.004]"
    by (simp_all add: window_elevations_def samples1_def samples2_def demo_sky_sel demo_times
          samples_Cons demo_geometry1 demo_geometry2 demo_passes1_def demo_passes2_def
          demo_elevation_def)
  have x: "max_elevation (demo_passes1 ! 0) = 10.004" "max_elevation (demo_passes2 ! 0) = 10"
    "duration_sec (demo_passes1 ! 0) = 2" "duration_sec (demo_passes2 ! 0) = 2"
    by (simp_all add: demo_passes1_def demo_passes2_def)
  from b1 have y1: "max_elevation (demo_passes1 ! 0) =
     Max (set (window_elevations (samples1 demo_sky [] [] 55.75 37.5 150 0 5000000 1)
                 (demo_passes1 ! 0)))"
    by (rule conjunct1[OF conjunct2])
  from b2 have y2: "max_elevation (demo_passes2 ! 0) =
     py_round (Max (set (window_elevations (samples2 demo_sky 25544 55.75 37.5 150 0 5000000 1)
                 (demo_passes2 ! 0)))) 2"
    by (rule conjunct1[OF conjunct2[OF conjunct2]])
  from s e w x y1 y2 demo_run1[of "[]" "[]"] demo_run2[of 77] show ?thesis
    by (intro conjI)
qed

end
